theory Spec2Isabelle
  imports Main
begin

section \<open>Syntax nodes\<close>

text \<open>
  The lowering pass of \<^verbatim>\<open>src/compiler/transforms/es6.ts\<close> works on syntax nodes. The
  node types, the node factory, the generated visitors and the transform context are
  declared outside that file; the parts the pass touches are modelled below. A node whose
  identity the pass uses (a computed property name, a class member, a class) carries a
  number standing for the node object: its source position, with \<open>-1\<close> for a node the
  factory creates. The back-reference \<^verbatim>\<open>original\<close> of a created node is left out: it
  takes no part in the comparison of lowered trees.
\<close>

type_synonym comment_range = "nat \<times> nat"

datatype syntax_kind =
    PublicKeyword | PrivateKeyword | ProtectedKeyword | AbstractKeyword | AsyncKeyword
  | ConstKeyword | DeclareKeyword | StaticKeyword | ExportKeyword | DefaultKeyword
  | ExtendsKeyword | ImplementsKeyword
  | Constructor | PropertyDeclaration | IndexSignature | MethodDeclaration
  | GetAccessor | SetAccessor | SemicolonClassElement | MissingDeclaration
  | ClassDeclaration | ClassExpression

text \<open>
  Names and expressions. \<open>Undefined\<close> is the JavaScript value \<^verbatim>\<open>undefined\<close> in a slot
  typed as a node; \<open>OtherExpression\<close> is any expression form the pass only hands to the
  generic visitor.
\<close>

datatype node =
    Identifier string
  | StringLiteral string
  | NumericLiteral nat
  | ComputedPropertyName nat node
  | ObjectBindingPattern nat
  | ArrayBindingPattern nat
  | ThisKeyword
  | SuperKeyword
  | PropertyAccessExpression node node
  | MemberAccessForPropertyName node node
  | AssignmentExpression node node
  | CallExpression node "node list"
  | SpreadElementExpression node
  | ArrayLiteralExpression "node list"
  | ExpressionWithTypeArguments node "nat list option"
  | OtherExpression nat
  | Undefined

datatype decorator = Decorator (expression: node)

text \<open>
  The flag constants are declared outside the file. A node carries one boolean per flag the
  pass tests: \<open>p_accessibility\<close> for \<^verbatim>\<open>flags & NodeFlags.AccessibilityModifier\<close>, \<open>ce_static\<close>
  for \<^verbatim>\<open>flags & NodeFlags.Static\<close>, \<open>ce_ambient\<close> for \<^verbatim>\<open>flags & NodeFlags.Ambient\<close>. An
  optional array that the pass tests for presence is an option; a list of modifiers is
  empty when the node has none.
\<close>

datatype node_flags = NodeFlags_Let

record parameter_declaration =
  p_decorators :: "decorator list option"
  p_accessibility :: bool
  p_dotDotDotToken :: bool
  p_name :: node

record heritage_clause =
  token :: syntax_kind
  types :: "node list"

datatype statement =
    ExpressionStatement node
  | VariableStatement node class_like node_flags
  | ClassDeclarationStatement class_like
  | OtherStatement nat
and class_element =
    ClassElement
      (ce_kind: syntax_kind)
      (ce_pos: int)
      (ce_static: bool)
      (ce_ambient: bool)
      (ce_decorators: "decorator list option")
      (ce_modifiers: "syntax_kind list")
      (ce_name: node)
      (ce_parameters: "parameter_declaration list")
      (ce_body: "statement list option")
      (ce_initializer: "node option")
      (ce_leadingComments: "comment_range list option")
      (ce_trailingComments: "comment_range list option")
and class_like =
    ClassLike
      (c_kind: syntax_kind)
      (c_pos: int)
      (c_decorators: "decorator list option")
      (c_modifiers: "syntax_kind list")
      (c_name: "node option")
      (c_heritageClauses: "heritage_clause list option")
      (c_members: "class_element list")

record all_accessor_declarations =
  firstAccessor :: class_element
  secondAccessor :: "class_element option"
  getAccessor :: "class_element option"
  setAccessor :: "class_element option"

datatype error = DebugFailure string | TypeError string

section \<open>Collaborating services\<close>

text \<open>
  The generated visitors (each already applied to \<^verbatim>\<open>transformNode\<close>), the comment-range
  lookup, the declaration-name binding, the compiler option and the decoratability tests
  come from other files of the compiler. The pass is modelled for any choice of them. A
  visitor is taken as a function of the node it visits; what it may do to the context on
  its own is outside this model.
\<close>

record host =
  visitExpression :: "node \<Rightarrow> node"
  visitNodes :: "statement list \<Rightarrow> statement list"
  visitBlock :: "statement list \<Rightarrow> statement list"
  visitNodeArrayOfParameter :: "parameter_declaration list \<Rightarrow> parameter_declaration list"
  visitNodeArrayOfModifier :: "syntax_kind list \<Rightarrow> syntax_kind list"
  visitNodeArrayOfExpressionWithTypeArguments :: "node list \<Rightarrow> node list"
  accept :: "class_element \<Rightarrow> class_element option"
  getLeadingCommentRanges :: "class_element \<Rightarrow> bool \<Rightarrow> comment_range list option"
  getTrailingCommentRanges :: "class_element \<Rightarrow> comment_range list option"
  getDeclarationName :: "class_like \<Rightarrow> node"
  getClassMemberPrefix :: "class_like \<Rightarrow> class_element \<Rightarrow> node"
  emitDecoratorMetadata :: bool
  getAllAccessorDeclarations :: "class_element list \<Rightarrow> class_element \<Rightarrow> all_accessor_declarations"
  nodeCanBeDecorated :: "class_element \<Rightarrow> bool"
  nodeIsDecorated :: "class_element \<Rightarrow> bool"
  nodeOrChildIsDecorated :: "class_element \<Rightarrow> bool"
  generatedNameText :: "nat \<Rightarrow> string"
  uniqueNameText :: "string \<Rightarrow> nat \<Rightarrow> string"

section \<open>Transform context\<close>

record visitor_context =
  statements :: "statement list"
  outerStatements :: "statement list list"
  generatedNames :: "nat \<rightharpoonup> string"
  nextName :: nat
  hoistedVariableDeclarations :: "node list"

text \<open>
  Modelled from the spec: the statement buffers of the transform context (section 5).
  Entering a statement-producing scope pushes a fresh buffer, every emission goes to the
  innermost buffer, leaving the scope pops it. \<open>statements\<close> is the innermost buffer,
  \<open>outerStatements\<close> the saved ones.
\<close>

definition pushStatements :: "visitor_context \<Rightarrow> visitor_context" where
  "pushStatements ctx =
     ctx\<lparr>outerStatements := statements ctx # outerStatements ctx, statements := []\<rparr>"

definition getStatements :: "visitor_context \<Rightarrow> statement list" where
  "getStatements ctx = statements ctx"

definition popStatements :: "visitor_context \<Rightarrow> visitor_context" where
  "popStatements ctx =
     (case outerStatements ctx of
        [] \<Rightarrow> ctx\<lparr>statements := []\<rparr>
      | b # bs \<Rightarrow> ctx\<lparr>statements := b, outerStatements := bs\<rparr>)"

definition emitStatement :: "statement \<Rightarrow> visitor_context \<Rightarrow> visitor_context" where
  "emitStatement s ctx = ctx\<lparr>statements := statements ctx @ [s]\<rparr>"

definition emitStatements :: "statement list \<Rightarrow> visitor_context \<Rightarrow> visitor_context" where
  "emitStatements ss ctx = ctx\<lparr>statements := statements ctx @ ss\<rparr>"

definition emitExpressionStatement :: "node \<Rightarrow> visitor_context \<Rightarrow> visitor_context" where
  "emitExpressionStatement e ctx = emitStatement (ExpressionStatement e) ctx"

definition emitAssignmentStatement :: "node \<Rightarrow> node \<Rightarrow> visitor_context \<Rightarrow> visitor_context" where
  "emitAssignmentStatement l r ctx = emitExpressionStatement (AssignmentExpression l r) ctx"

text \<open>
  Modelled from the spec: the name generator and the variable-hoisting registry
  (sections 3 and 6). A generated name is stable per original node: the first request for
  a node draws the next name of the supply and records it, later requests return the
  recorded name. A hoisted local is appended to the registry.
\<close>

definition nodeHasGeneratedName :: "visitor_context \<Rightarrow> nat \<Rightarrow> bool" where
  "nodeHasGeneratedName ctx i = (generatedNames ctx i \<noteq> None)"

definition getGeneratedNameForNode :: "host \<Rightarrow> nat \<Rightarrow> visitor_context \<Rightarrow> string \<times> visitor_context" where
  "getGeneratedNameForNode h i ctx =
     (case generatedNames ctx i of
        Some s \<Rightarrow> (s, ctx)
      | None \<Rightarrow>
          (generatedNameText h (nextName ctx),
           ctx\<lparr>generatedNames := (generatedNames ctx)(i \<mapsto> generatedNameText h (nextName ctx)),
                nextName := Suc (nextName ctx)\<rparr>))"

definition createUniqueIdentifier :: "host \<Rightarrow> string \<Rightarrow> visitor_context \<Rightarrow> node \<times> visitor_context" where
  "createUniqueIdentifier h text ctx =
     (Identifier (uniqueNameText h text (nextName ctx)), ctx\<lparr>nextName := Suc (nextName ctx)\<rparr>)"

definition hoistVariableDeclaration :: "node \<Rightarrow> visitor_context \<Rightarrow> visitor_context" where
  "hoistVariableDeclaration n ctx =
     ctx\<lparr>hoistedVariableDeclarations := hoistedVariableDeclarations ctx @ [n]\<rparr>"

section \<open>Kind tests\<close>

fun isComputedPropertyName :: "node \<Rightarrow> bool" where
  "isComputedPropertyName (ComputedPropertyName i e) = True"
| "isComputedPropertyName n = False"

fun isIdentifier :: "node \<Rightarrow> bool" where
  "isIdentifier (Identifier s) = True"
| "isIdentifier n = False"

fun isStringLiteral :: "node \<Rightarrow> bool" where
  "isStringLiteral (StringLiteral s) = True"
| "isStringLiteral n = False"

fun isLiteral :: "node \<Rightarrow> bool" where
  "isLiteral (StringLiteral s) = True"
| "isLiteral (NumericLiteral k) = True"
| "isLiteral n = False"

fun isBindingPattern :: "node \<Rightarrow> bool" where
  "isBindingPattern (ObjectBindingPattern i) = True"
| "isBindingPattern (ArrayBindingPattern i) = True"
| "isBindingPattern n = False"

text \<open>
  Modelled from the spec: the property-name test (section 4.5). Identifier, literal and
  computed names are property names; any other form is not.
\<close>

fun isPropertyName :: "node \<Rightarrow> bool" where
  "isPropertyName (Identifier s) = True"
| "isPropertyName (StringLiteral s) = True"
| "isPropertyName (NumericLiteral k) = True"
| "isPropertyName (ComputedPropertyName i e) = True"
| "isPropertyName n = False"

text \<open>The forms a declaration name can take: a property name or a binding pattern.\<close>

definition isDeclarationName :: "node \<Rightarrow> bool" where
  "isDeclarationName n = (isPropertyName n \<or> isBindingPattern n)"

definition isAccessor :: "class_element \<Rightarrow> bool" where
  "isAccessor m = (ce_kind m = GetAccessor \<or> ce_kind m = SetAccessor)"

definition isMethodDeclaration :: "class_element \<Rightarrow> bool" where
  "isMethodDeclaration m = (ce_kind m = MethodDeclaration)"

definition isPropertyDeclaration :: "class_element \<Rightarrow> bool" where
  "isPropertyDeclaration m = (ce_kind m = PropertyDeclaration)"

definition isConstructor :: "class_element \<Rightarrow> bool" where
  "isConstructor m = (ce_kind m = Constructor)"

section \<open>Property name resolution\<close>

text \<open>
  Modelled from the spec: the declaration name of a class member is its own name
  (section 3, Declaration Name Binding).
\<close>

definition getDeclarationNameOfMember :: "class_element \<Rightarrow> node" where
  "getDeclarationNameOfMember container = ce_name container"

text \<open>
  \<^verbatim>\<open>transformPropertyName(context, container, isPerInstance)\<close>. \<^verbatim>\<open>Debug.fail\<close> is the
  error \<open>DebugFailure\<close>; it unwinds every caller.
\<close>

definition transformPropertyName ::
  "host \<Rightarrow> class_element \<Rightarrow> bool \<Rightarrow> visitor_context \<Rightarrow> error + (node \<times> visitor_context)" where
  "transformPropertyName h container isPerInstance ctx =
     (case getDeclarationNameOfMember container of
        ComputedPropertyName i e \<Rightarrow>
          if \<not> isPerInstance \<and> nodeHasGeneratedName ctx i then
            (case getGeneratedNameForNode h i ctx of (g, ctx1) \<Rightarrow> Inr (Identifier g, ctx1))
          else
            (let expression = visitExpression h e in
             if \<not> isPerInstance \<and> nodeCanBeDecorated h container \<and> nodeIsDecorated h container then
               (case getGeneratedNameForNode h i ctx of
                  (g, ctx1) \<Rightarrow>
                    Inr (ComputedPropertyName i (AssignmentExpression (Identifier g) expression),
                         hoistVariableDeclaration (Identifier g) ctx1))
             else Inr (ComputedPropertyName i expression, ctx))
      | name \<Rightarrow>
          if isPropertyName name then Inr (name, ctx)
          else Inl (DebugFailure ''Binding patterns cannot be used as property names.''))"

definition getExpressionForPropertyName ::
  "host \<Rightarrow> class_element \<Rightarrow> visitor_context \<Rightarrow> error + (node \<times> visitor_context)" where
  "getExpressionForPropertyName h container ctx =
     (case transformPropertyName h container False ctx of
        Inl err \<Rightarrow> Inl err
      | Inr (name, ctx1) \<Rightarrow>
          (case name of
             ComputedPropertyName i e \<Rightarrow> Inr (e, ctx1)
           | StringLiteral s \<Rightarrow> Inr (StringLiteral s, ctx1)
           | other \<Rightarrow> Inr (Undefined, ctx1)))"

section \<open>Decorator lowering\<close>

text \<open>
  Modelled from the spec: a parameter is decorated when it carries a decorator list
  (section 4.4); \<^verbatim>\<open>emitDecoratorsOfParameters\<close> reads that list right after the test.
\<close>

definition parameterIsDecorated :: "parameter_declaration \<Rightarrow> bool" where
  "parameterIsDecorated p = (p_decorators p \<noteq> None)"

text \<open>The loop \<^verbatim>\<open>for (let decorator of decorators) decoratorExpressions.push(...)\<close>.\<close>

fun pushDecoratorExpressions :: "host \<Rightarrow> decorator list \<Rightarrow> node list \<Rightarrow> node list" where
  "pushDecoratorExpressions h [] expressions = expressions"
| "pushDecoratorExpressions h (d # ds) expressions =
     pushDecoratorExpressions h ds (expressions @ [visitExpression h (expression d)])"

text \<open>The inner loop of \<^verbatim>\<open>emitDecoratorsOfParameters\<close>, for the parameter at one index.\<close>

fun pushParameterDecorators :: "host \<Rightarrow> nat \<Rightarrow> decorator list \<Rightarrow> node list \<Rightarrow> node list" where
  "pushParameterDecorators h parameterIndex [] expressions = expressions"
| "pushParameterDecorators h parameterIndex (d # ds) expressions =
     pushParameterDecorators h parameterIndex ds
       (expressions @
        [CallExpression (Identifier ''__param'')
           [NumericLiteral parameterIndex, visitExpression h (expression d)]])"

text \<open>
  The outer loop of \<^verbatim>\<open>emitDecoratorsOfParameters\<close>, from \<open>parameterIndex\<close> on; the list
  holds the parameters at that index and after it.
\<close>

fun emitDecoratorsOfParametersFrom ::
  "host \<Rightarrow> nat \<Rightarrow> parameter_declaration list \<Rightarrow> node list \<Rightarrow> node list" where
  "emitDecoratorsOfParametersFrom h parameterIndex [] expressions = expressions"
| "emitDecoratorsOfParametersFrom h parameterIndex (parameter # rest) expressions =
     emitDecoratorsOfParametersFrom h (Suc parameterIndex) rest
       (if parameterIsDecorated parameter then
          (case p_decorators parameter of
             Some ds \<Rightarrow> pushParameterDecorators h parameterIndex ds expressions
           | None \<Rightarrow> expressions)
        else expressions)"

definition emitDecoratorsOfParameters ::
  "host \<Rightarrow> parameter_declaration list \<Rightarrow> node list \<Rightarrow> node list" where
  "emitDecoratorsOfParameters h parameters expressions =
     emitDecoratorsOfParametersFrom h 0 parameters expressions"

fun shouldEmitTypeMetadata :: "syntax_kind \<Rightarrow> bool" where
  "shouldEmitTypeMetadata MethodDeclaration = True"
| "shouldEmitTypeMetadata GetAccessor = True"
| "shouldEmitTypeMetadata SetAccessor = True"
| "shouldEmitTypeMetadata PropertyDeclaration = True"
| "shouldEmitTypeMetadata k = False"

fun shouldEmitReturnTypeMetadata :: "syntax_kind \<Rightarrow> bool" where
  "shouldEmitReturnTypeMetadata MethodDeclaration = True"
| "shouldEmitReturnTypeMetadata k = False"

fun shouldEmitParamTypesMetadata :: "syntax_kind \<Rightarrow> bool" where
  "shouldEmitParamTypesMetadata ClassDeclaration = True"
| "shouldEmitParamTypesMetadata MethodDeclaration = True"
| "shouldEmitParamTypesMetadata SetAccessor = True"
| "shouldEmitParamTypesMetadata k = False"

definition metadataCall :: "string \<Rightarrow> node" where
  "metadataCall tag = CallExpression (Identifier ''__metadata'') [StringLiteral tag]"

text \<open>\<^verbatim>\<open>emitSerializedTypeMetadata\<close>; its argument is the kind of the node it is given.\<close>

definition emitSerializedTypeMetadata :: "syntax_kind \<Rightarrow> node list \<Rightarrow> node list" where
  "emitSerializedTypeMetadata k expressions =
     (let e1 = (if shouldEmitTypeMetadata k
                then expressions @ [metadataCall ''design:type''] else expressions);
          e2 = (if shouldEmitParamTypesMetadata k
                then e1 @ [metadataCall ''design:paramtypes''] else e1)
      in if shouldEmitReturnTypeMetadata k
         then e2 @ [metadataCall ''design:returntype''] else e2)"

text \<open>
  Modelled from the spec: the first constructor of the class that has a body
  (section 4.3, "a constructor with a body").
\<close>

definition getFirstConstructorWithBody :: "class_like \<Rightarrow> class_element option" where
  "getFirstConstructorWithBody node =
     find (\<lambda>member. ce_kind member = Constructor \<and> ce_body member \<noteq> None) (c_members node)"

text \<open>\<^verbatim>\<open>forEach(constructor.parameters, nodeIsDecorated)\<close>, for a constructor that may be absent.\<close>

definition hasDecoratedParameters :: "class_element option \<Rightarrow> bool" where
  "hasDecoratedParameters constructor =
     (case constructor of
        None \<Rightarrow> False
      | Some c \<Rightarrow> list_ex parameterIsDecorated (ce_parameters c))"

definition emitDecoratorsOfConstructor :: "host \<Rightarrow> class_like \<Rightarrow> visitor_context \<Rightarrow> visitor_context" where
  "emitDecoratorsOfConstructor h node ctx =
     (let decorators = c_decorators node;
          constructor = getFirstConstructorWithBody node
      in if decorators = None \<and> \<not> hasDecoratedParameters constructor then ctx
         else
           (let e0 = (case decorators of
                        Some ds \<Rightarrow> pushDecoratorExpressions h ds []
                      | None \<Rightarrow> []);
                e1 = (case constructor of
                        Some c \<Rightarrow> emitDecoratorsOfParameters h (ce_parameters c) e0
                      | None \<Rightarrow> e0);
                decoratorExpressions =
                  (if emitDecoratorMetadata h then emitSerializedTypeMetadata (c_kind node) e1
                   else e1)
            in emitAssignmentStatement
                 (getDeclarationName h node)
                 (CallExpression (Identifier ''__decorate'')
                    [ArrayLiteralExpression decoratorExpressions, getDeclarationName h node])
                 ctx))"

text \<open>
  \<^verbatim>\<open>emitDecoratorsOfMember\<close>. The first part selects the decorator list and the
  parameters, or returns early for the second accessor of a pair (\<open>None\<close> below). The
  argument array of the \<^verbatim>\<open>__decorate\<close> call is extended after the call node is created;
  following the emit shown in the source's comment, the call has the extended array.
\<close>

definition memberDecoratorsAndParameters ::
  "host \<Rightarrow> class_like \<Rightarrow> class_element \<Rightarrow>
   (decorator list option \<times> parameter_declaration list option) option" where
  "memberDecoratorsAndParameters h node member =
     (if isAccessor member \<and> ce_body member \<noteq> None then
        (let accessors = getAllAccessorDeclarations h (c_members node) member in
         if member \<noteq> firstAccessor accessors then None
         else
           Some
             ((case ce_decorators (firstAccessor accessors) of
                 Some ds \<Rightarrow> Some ds
               | None \<Rightarrow>
                   (case secondAccessor accessors of
                      Some second \<Rightarrow> ce_decorators second
                    | None \<Rightarrow> None)),
              (case setAccessor accessors of
                 Some setter \<Rightarrow> Some (ce_parameters setter)
               | None \<Rightarrow> None)))
      else
        Some
          (ce_decorators member,
           if isMethodDeclaration member \<and> ce_body member \<noteq> None
           then Some (ce_parameters member) else None))"

definition memberDecoratorExpressions ::
  "host \<Rightarrow> class_like \<Rightarrow> decorator list option \<Rightarrow> parameter_declaration list option \<Rightarrow> node list" where
  "memberDecoratorExpressions h node decorators parameters =
     (let e0 = (case decorators of
                  Some ds \<Rightarrow> pushDecoratorExpressions h ds []
                | None \<Rightarrow> []);
          e1 = (case parameters of
                  Some ps \<Rightarrow> emitDecoratorsOfParameters h ps e0
                | None \<Rightarrow> e0)
      in if emitDecoratorMetadata h then emitSerializedTypeMetadata (c_kind node) e1 else e1)"

definition objectMember :: "string \<Rightarrow> node" where
  "objectMember f = PropertyAccessExpression (Identifier ''Object'') (Identifier f)"

definition emitDecoratorsOfMember ::
  "host \<Rightarrow> class_like \<Rightarrow> class_element \<Rightarrow> visitor_context \<Rightarrow> error + visitor_context" where
  "emitDecoratorsOfMember h node member ctx =
     (case memberDecoratorsAndParameters h node member of
        None \<Rightarrow> Inr ctx
      | Some (decorators, parameters) \<Rightarrow>
          (let decoratorExpressions = memberDecoratorExpressions h node decorators parameters;
               prefix = getClassMemberPrefix h node member
           in case getExpressionForPropertyName h member ctx of
                Inl err \<Rightarrow> Inl err
              | Inr (name1, ctx1) \<Rightarrow>
                  if isPropertyDeclaration member then
                    Inr (emitExpressionStatement
                           (CallExpression (Identifier ''__decorate'')
                              [ArrayLiteralExpression decoratorExpressions, prefix, name1])
                           ctx1)
                  else
                    (case getExpressionForPropertyName h member ctx1 of
                       Inl err \<Rightarrow> Inl err
                     | Inr (name2, ctx2) \<Rightarrow>
                         (case getExpressionForPropertyName h member ctx2 of
                            Inl err \<Rightarrow> Inl err
                          | Inr (name3, ctx3) \<Rightarrow>
                              Inr (emitExpressionStatement
                                     (CallExpression (objectMember ''defineProperty'')
                                        [prefix, name3,
                                         CallExpression (Identifier ''__decorate'')
                                           [ArrayLiteralExpression decoratorExpressions, prefix, name1,
                                            CallExpression (objectMember ''getOwnPropertyDescriptor'')
                                              [prefix, name2]]])
                                     ctx3)))))"

text \<open>The loop of \<^verbatim>\<open>emitDecoratorsOfMembers\<close> over the members that are left.\<close>

fun emitDecoratorsOfMembersLoop ::
  "host \<Rightarrow> class_like \<Rightarrow> bool \<Rightarrow> class_element list \<Rightarrow> visitor_context \<Rightarrow> error + visitor_context" where
  "emitDecoratorsOfMembersLoop h node isStatic [] ctx = Inr ctx"
| "emitDecoratorsOfMembersLoop h node isStatic (member # rest) ctx =
     (if isStatic \<noteq> ce_static member then emitDecoratorsOfMembersLoop h node isStatic rest ctx
      else if \<not> nodeCanBeDecorated h member \<or> \<not> nodeOrChildIsDecorated h member
      then emitDecoratorsOfMembersLoop h node isStatic rest ctx
      else
        (case emitDecoratorsOfMember h node member ctx of
           Inl err \<Rightarrow> Inl err
         | Inr ctx1 \<Rightarrow> emitDecoratorsOfMembersLoop h node isStatic rest ctx1))"

definition emitDecoratorsOfMembers ::
  "host \<Rightarrow> class_like \<Rightarrow> bool \<Rightarrow> visitor_context \<Rightarrow> error + visitor_context" where
  "emitDecoratorsOfMembers h node isStatic ctx =
     emitDecoratorsOfMembersLoop h node isStatic (c_members node) ctx"

definition emitDecoratorsOfClass :: "host \<Rightarrow> class_like \<Rightarrow> visitor_context \<Rightarrow> error + visitor_context" where
  "emitDecoratorsOfClass h node ctx =
     (case emitDecoratorsOfMembers h node False ctx of
        Inl err \<Rightarrow> Inl err
      | Inr ctx1 \<Rightarrow>
          (case emitDecoratorsOfMembers h node True ctx1 of
             Inl err \<Rightarrow> Inl err
           | Inr ctx2 \<Rightarrow> Inr (emitDecoratorsOfConstructor h node ctx2)))"

section \<open>Constructor synthesis\<close>

text \<open>
  \<^verbatim>\<open>getInitializedProperties\<close> and \<^verbatim>\<open>getParametersWithPropertyAssignments\<close> create their
  result array at the first match and return \<^verbatim>\<open>undefined\<close> without one, so the result is
  absent exactly when the list below is empty.
\<close>

definition getInitializedProperties :: "class_like \<Rightarrow> bool \<Rightarrow> class_element list" where
  "getInitializedProperties node isStatic =
     filter (\<lambda>member. ce_kind member = PropertyDeclaration
                      \<and> isStatic = ce_static member
                      \<and> ce_initializer member \<noteq> None)
            (c_members node)"

definition getParametersWithPropertyAssignments :: "class_element \<Rightarrow> parameter_declaration list" where
  "getParametersWithPropertyAssignments node =
     filter (\<lambda>parameter. isIdentifier (p_name parameter) \<and> p_accessibility parameter)
            (ce_parameters node)"

definition bodyStatements :: "class_element \<Rightarrow> statement list" where
  "bodyStatements ctor = (case ce_body ctor of Some ss \<Rightarrow> ss | None \<Rightarrow> [])"

definition findInitialSuperCall :: "class_element \<Rightarrow> statement option" where
  "findInitialSuperCall ctor =
     (case ce_body ctor of
        Some (ExpressionStatement (CallExpression SuperKeyword args) # rest) \<Rightarrow>
          Some (ExpressionStatement (CallExpression SuperKeyword args))
      | _ \<Rightarrow> None)"

text \<open>
  Modelled from the spec: concatenation of comment ranges (section 4.3). An absent or empty
  operand contributes nothing.
\<close>

definition concatenate :: "'a list option \<Rightarrow> 'a list option \<Rightarrow> 'a list option" where
  "concatenate array1 array2 =
     (case array2 of
        None \<Rightarrow> array1
      | Some [] \<Rightarrow> array1
      | Some ys \<Rightarrow>
          (case array1 of
             None \<Rightarrow> array2
           | Some [] \<Rightarrow> array2
           | Some xs \<Rightarrow> Some (xs @ ys)))"

text \<open>The loop gathering the leading comments of the bodyless constructor overloads.\<close>

fun overloadCommentRanges ::
  "host \<Rightarrow> class_element list \<Rightarrow> comment_range list option \<Rightarrow> comment_range list option" where
  "overloadCommentRanges h [] leadingCommentRanges = leadingCommentRanges"
| "overloadCommentRanges h (member # rest) leadingCommentRanges =
     overloadCommentRanges h rest
       (if isConstructor member \<and> ce_body member = None
        then concatenate leadingCommentRanges (getLeadingCommentRanges h member True)
        else leadingCommentRanges)"

text \<open>
  Modelled from the spec: the node factory (section 6). A clone has the fields of its
  source; attaching comment ranges records them on the node; an updated node keeps what
  the update does not replace; a created node has no position.
\<close>

definition cloneNode :: "class_element \<Rightarrow> class_element" where
  "cloneNode node = node"

definition attachCommentRanges ::
  "class_element \<Rightarrow> comment_range list option \<Rightarrow> comment_range list option \<Rightarrow> class_element" where
  "attachCommentRanges node leading trailing =
     ClassElement (ce_kind node) (ce_pos node) (ce_static node) (ce_ambient node)
       (ce_decorators node) (ce_modifiers node) (ce_name node) (ce_parameters node)
       (ce_body node) (ce_initializer node) leading trailing"

definition createRestParameter :: "node \<Rightarrow> parameter_declaration" where
  "createRestParameter name =
     \<lparr>p_decorators = None, p_accessibility = False, p_dotDotDotToken = True, p_name = name\<rparr>"

definition updateConstructor ::
  "class_element \<Rightarrow> parameter_declaration list \<Rightarrow> statement list \<Rightarrow> class_element" where
  "updateConstructor node parameters body =
     ClassElement (ce_kind node) (ce_pos node) (ce_static node) (ce_ambient node)
       None [] (ce_name node) parameters (Some body) (ce_initializer node)
       (ce_leadingComments node) (ce_trailingComments node)"

definition createConstructor :: "parameter_declaration list \<Rightarrow> statement list \<Rightarrow> class_element" where
  "createConstructor parameters body =
     ClassElement Constructor (- 1) False False None [] Undefined parameters (Some body)
       None None None"

text \<open>
  \<^verbatim>\<open>updateMethodDeclaration\<close>, \<^verbatim>\<open>updateGetAccessor\<close> and \<^verbatim>\<open>updateSetAccessor\<close> as the pass
  calls them: decorators and type annotations dropped, the other arguments stored.
\<close>

definition updateFunctionLike ::
  "class_element \<Rightarrow> syntax_kind list \<Rightarrow> node \<Rightarrow> parameter_declaration list \<Rightarrow>
   statement list option \<Rightarrow> class_element" where
  "updateFunctionLike node modifiers name parameters body =
     ClassElement (ce_kind node) (ce_pos node) (ce_static node) (ce_ambient node)
       None modifiers name parameters body (ce_initializer node)
       (ce_leadingComments node) (ce_trailingComments node)"

definition createMissingDeclaration :: "class_element \<Rightarrow> class_element" where
  "createMissingDeclaration location =
     ClassElement MissingDeclaration (ce_pos location) False False None [] Undefined []
       None None None None"

definition transformPropertyDeclaration ::
  "host \<Rightarrow> class_like \<Rightarrow> class_element \<Rightarrow> visitor_context \<Rightarrow> error + (node \<times> visitor_context)" where
  "transformPropertyDeclaration h node property ctx =
     (let isStatic = ce_static property;
          target = (if isStatic then getDeclarationName h node else ThisKeyword)
      in case transformPropertyName h property (\<not> isStatic) ctx of
           Inl err \<Rightarrow> Inl err
         | Inr (name, ctx1) \<Rightarrow>
             Inr (AssignmentExpression
                    (MemberAccessForPropertyName target name)
                    (case ce_initializer property of
                       Some e \<Rightarrow> visitExpression h e
                     | None \<Rightarrow> Undefined),
                  ctx1))"

fun emitPropertyDeclarations ::
  "host \<Rightarrow> class_like \<Rightarrow> class_element list \<Rightarrow> visitor_context \<Rightarrow> error + visitor_context" where
  "emitPropertyDeclarations h node [] ctx = Inr ctx"
| "emitPropertyDeclarations h node (property # properties) ctx =
     (case transformPropertyDeclaration h node property ctx of
        Inl err \<Rightarrow> Inl err
      | Inr (propertyAssignment, ctx1) \<Rightarrow>
          emitPropertyDeclarations h node properties
            (emitStatement (ExpressionStatement propertyAssignment) ctx1))"

text \<open>The loop emitting \<^verbatim>\<open>this.<name> = <name>\<close> for the parameter properties.\<close>

fun emitParameterPropertyAssignments ::
  "parameter_declaration list \<Rightarrow> visitor_context \<Rightarrow> visitor_context" where
  "emitParameterPropertyAssignments [] ctx = ctx"
| "emitParameterPropertyAssignments (parameter # rest) ctx =
     emitParameterPropertyAssignments rest
       (emitAssignmentStatement
          (PropertyAccessExpression ThisKeyword (p_name parameter))
          (p_name parameter)
          ctx)"

text \<open>
  \<^verbatim>\<open>transformConstructor\<close>. In the branch that returns early, cloning an absent
  constructor and attaching comment ranges to it dereferences \<^verbatim>\<open>undefined\<close>: the error
  \<open>TypeError\<close>.
\<close>

definition transformConstructor ::
  "host \<Rightarrow> class_like \<Rightarrow> bool \<Rightarrow> visitor_context \<Rightarrow>
   error + (class_element option \<times> visitor_context)" where
  "transformConstructor h node hasBaseType ctx =
     (let ctor = getFirstConstructorWithBody node;
          parameterPropertyAssignments =
            (case ctor of Some c \<Rightarrow> getParametersWithPropertyAssignments c | None \<Rightarrow> []);
          instancePropertyAssignments = getInitializedProperties node False;
          leadingCommentRanges = overloadCommentRanges h (c_members node) None
      in if parameterPropertyAssignments = [] \<and> instancePropertyAssignments = [] then
           (case leadingCommentRanges of
              None \<Rightarrow> Inr (ctor, ctx)
            | Some ranges \<Rightarrow>
                (case ctor of
                   None \<Rightarrow> Inl (TypeError ''Cannot read property of undefined'')
                 | Some c \<Rightarrow>
                     Inr (Some (attachCommentRanges (cloneNode c)
                                  (concatenate leadingCommentRanges
                                     (getLeadingCommentRanges h c False))
                                  None),
                          ctx)))
         else
           (let ctx1 = pushStatements ctx;
                parameters =
                  (case ctor of
                     Some c \<Rightarrow> visitNodeArrayOfParameter h (ce_parameters c)
                   | None \<Rightarrow>
                       if hasBaseType then [createRestParameter (Identifier ''args'')] else []);
                superCall =
                  (case ctor of
                     Some c \<Rightarrow> if hasBaseType then findInitialSuperCall c else None
                   | None \<Rightarrow> None);
                leading =
                  (case ctor of
                     Some c \<Rightarrow> concatenate leadingCommentRanges (getLeadingCommentRanges h c False)
                   | None \<Rightarrow> leadingCommentRanges);
                trailing =
                  (case ctor of Some c \<Rightarrow> getTrailingCommentRanges h c | None \<Rightarrow> None);
                ctx2 =
                  (case ctor of
                     Some c \<Rightarrow>
                       emitParameterPropertyAssignments parameterPropertyAssignments
                         (case superCall of Some s \<Rightarrow> emitStatement s ctx1 | None \<Rightarrow> ctx1)
                   | None \<Rightarrow>
                       if hasBaseType then
                         emitExpressionStatement
                           (CallExpression SuperKeyword
                              [SpreadElementExpression (Identifier ''args'')])
                           ctx1
                       else ctx1)
            in case (if instancePropertyAssignments \<noteq> []
                     then emitPropertyDeclarations h node instancePropertyAssignments ctx2
                     else Inr ctx2) of
                 Inl err \<Rightarrow> Inl err
               | Inr ctx3 \<Rightarrow>
                   (let ctx4 =
                          (case ctor of
                             Some c \<Rightarrow>
                               emitStatements
                                 (visitNodes h
                                    (case superCall of
                                       Some s \<Rightarrow> bodyStatements c
                                     | None \<Rightarrow> drop 1 (bodyStatements c)))
                                 ctx3
                           | None \<Rightarrow> ctx3);
                        body = getStatements ctx4;
                        ctx5 = popStatements ctx4;
                        newCtor =
                          (case ctor of
                             Some c \<Rightarrow> updateConstructor c parameters body
                           | None \<Rightarrow> createConstructor parameters body)
                    in Inr (Some (attachCommentRanges newCtor leading trailing), ctx5))))"

section \<open>Member transform and class lowering\<close>

definition transformMethodDeclaration ::
  "host \<Rightarrow> class_element \<Rightarrow> visitor_context \<Rightarrow> error + (class_element \<times> visitor_context)" where
  "transformMethodDeclaration h node ctx =
     (if ce_body node = None then Inr (createMissingDeclaration node, ctx)
      else
        (case transformPropertyName h node False ctx of
           Inl err \<Rightarrow> Inl err
         | Inr (name, ctx1) \<Rightarrow>
             Inr (updateFunctionLike node
                    (visitNodeArrayOfModifier h (ce_modifiers node))
                    name
                    (visitNodeArrayOfParameter h (ce_parameters node))
                    (map_option (visitBlock h) (ce_body node)),
                  ctx1)))"

definition transformGetAccessor ::
  "host \<Rightarrow> class_element \<Rightarrow> visitor_context \<Rightarrow> error + (class_element \<times> visitor_context)" where
  "transformGetAccessor h node ctx =
     (case transformPropertyName h node False ctx of
        Inl err \<Rightarrow> Inl err
      | Inr (name, ctx1) \<Rightarrow>
          Inr (updateFunctionLike node
                 (visitNodeArrayOfModifier h (ce_modifiers node))
                 name
                 (visitNodeArrayOfParameter h (ce_parameters node))
                 (map_option (visitBlock h) (ce_body node)),
               ctx1))"

definition transformSetAccessor ::
  "host \<Rightarrow> class_element \<Rightarrow> visitor_context \<Rightarrow> error + (class_element \<times> visitor_context)" where
  "transformSetAccessor h node ctx =
     (case transformPropertyName h node False ctx of
        Inl err \<Rightarrow> Inl err
      | Inr (name, ctx1) \<Rightarrow>
          Inr (updateFunctionLike node
                 (visitNodeArrayOfModifier h (ce_modifiers node))
                 name
                 (visitNodeArrayOfParameter h (ce_parameters node))
                 (map_option (visitBlock h) (ce_body node)),
               ctx1))"

text \<open>\<^verbatim>\<open>transformNodeWorker\<close> on a class member; \<open>None\<close> is an elided node.\<close>

definition transformNodeWorker ::
  "host \<Rightarrow> class_element \<Rightarrow> visitor_context \<Rightarrow> error + (class_element option \<times> visitor_context)" where
  "transformNodeWorker h node ctx =
     (if ce_ambient node then Inr (None, ctx)
      else if ce_kind node = Constructor \<or> ce_kind node = PropertyDeclaration
              \<or> ce_kind node = IndexSignature
      then Inr (None, ctx)
      else if ce_kind node = MethodDeclaration then
        (case transformMethodDeclaration h node ctx of
           Inl err \<Rightarrow> Inl err
         | Inr (m, ctx1) \<Rightarrow> Inr (Some m, ctx1))
      else if ce_kind node = GetAccessor then
        (case transformGetAccessor h node ctx of
           Inl err \<Rightarrow> Inl err
         | Inr (m, ctx1) \<Rightarrow> Inr (Some m, ctx1))
      else if ce_kind node = SetAccessor then
        (case transformSetAccessor h node ctx of
           Inl err \<Rightarrow> Inl err
         | Inr (m, ctx1) \<Rightarrow> Inr (Some m, ctx1))
      else Inr (accept h node, ctx))"

text \<open>
  Modelled from the spec: the generated visitor of a member list applies the worker to
  each member in order and leaves the elided ones out (section 9).
\<close>

fun visitNodeArrayOfClassElement ::
  "host \<Rightarrow> class_element list \<Rightarrow> visitor_context \<Rightarrow> error + (class_element list \<times> visitor_context)" where
  "visitNodeArrayOfClassElement h [] ctx = Inr ([], ctx)"
| "visitNodeArrayOfClassElement h (member # rest) ctx =
     (case transformNodeWorker h member ctx of
        Inl err \<Rightarrow> Inl err
      | Inr (visited, ctx1) \<Rightarrow>
          (case visitNodeArrayOfClassElement h rest ctx1 of
             Inl err \<Rightarrow> Inl err
           | Inr (others, ctx2) \<Rightarrow>
               Inr ((case visited of Some m \<Rightarrow> m # others | None \<Rightarrow> others), ctx2)))"

text \<open>\<^verbatim>\<open>transformNodeWorker\<close> on a modifier token: the TypeScript-only ones are elided.\<close>

definition transformModifier :: "syntax_kind \<Rightarrow> syntax_kind option" where
  "transformModifier k =
     (if k \<in> {PublicKeyword, PrivateKeyword, ProtectedKeyword, AbstractKeyword, AsyncKeyword,
               ConstKeyword, DeclareKeyword}
      then None else Some k)"

definition transformHeritageClause :: "host \<Rightarrow> heritage_clause \<Rightarrow> heritage_clause option" where
  "transformHeritageClause h node =
     (if token node = ExtendsKeyword
      then Some (node\<lparr>types := visitNodeArrayOfExpressionWithTypeArguments h (types node)\<rparr>)
      else None)"

text \<open>
  Modelled from the spec: the declared base type of a class is the first type of its
  extends clause (section 4.3, "whether the class has a declared base type").
\<close>

definition getClassExtendsHeritageClauseElement :: "class_like \<Rightarrow> node option" where
  "getClassExtendsHeritageClauseElement node =
     (case c_heritageClauses node of
        None \<Rightarrow> None
      | Some clauses \<Rightarrow>
          (case find (\<lambda>c. token c = ExtendsKeyword) clauses of
             None \<Rightarrow> None
           | Some c \<Rightarrow> (case types c of [] \<Rightarrow> None | t # ts \<Rightarrow> Some t)))"

definition createClassExpression2 ::
  "node option \<Rightarrow> heritage_clause option \<Rightarrow> class_element list \<Rightarrow> class_like" where
  "createClassExpression2 name heritageClause members =
     ClassLike ClassExpression (- 1) None [] name
       (case heritageClause of Some c \<Rightarrow> Some [c] | None \<Rightarrow> None) members"

definition updateClassDeclaration ::
  "class_like \<Rightarrow> syntax_kind list \<Rightarrow> node option \<Rightarrow> heritage_clause list option \<Rightarrow>
   class_element list \<Rightarrow> class_like" where
  "updateClassDeclaration node modifiers name heritageClauses members =
     ClassLike (c_kind node) (c_pos node) None modifiers name heritageClauses members"

text \<open>
  \<^verbatim>\<open>transformClassDeclaration\<close>. The result pairs the returned node (the function returns
  \<^verbatim>\<open>undefined\<close> on every path) with the context, whose innermost buffer holds the
  emitted statements.
\<close>

definition transformClassDeclaration ::
  "host \<Rightarrow> class_like \<Rightarrow> visitor_context \<Rightarrow> error + (statement option \<times> visitor_context)" where
  "transformClassDeclaration h node ctx =
     (let baseTypeNode = getClassExtendsHeritageClauseElement node;
          modifiers = List.map_filter transformModifier (c_modifiers node);
          heritageClauses =
            map_option (List.map_filter (transformHeritageClause h)) (c_heritageClauses node)
      in case transformConstructor h node (baseTypeNode \<noteq> None) ctx of
           Inl err \<Rightarrow> Inl err
         | Inr (ctor, ctx1) \<Rightarrow>
             (case visitNodeArrayOfClassElement h (c_members node) ctx1 of
                Inl err \<Rightarrow> Inl err
              | Inr (visited, ctx2) \<Rightarrow>
                  (let members = (case ctor of Some c \<Rightarrow> c # visited | None \<Rightarrow> visited);
                       ctx3 =
                         (if c_decorators node \<noteq> None then
                            (case (case c_name node of
                                     Some (Identifier text) \<Rightarrow>
                                       (case createUniqueIdentifier h text ctx2 of
                                          (u, c) \<Rightarrow> (Some u, c))
                                   | _ \<Rightarrow> (None, ctx2)) of
                               (internalName, ctx2a) \<Rightarrow>
                                 emitStatement
                                   (VariableStatement
                                      (getDeclarationName h node)
                                      (createClassExpression2 internalName
                                         (case heritageClauses of
                                            Some (c # cs) \<Rightarrow> Some c
                                          | _ \<Rightarrow> None)
                                         members)
                                      NodeFlags_Let)
                                   ctx2a)
                          else
                            (let newNode =
                                   updateClassDeclaration node modifiers (c_name node)
                                     heritageClauses members
                             in ctx2));
                       staticPropertyAssignments = getInitializedProperties node True
                   in case (if staticPropertyAssignments \<noteq> []
                            then emitPropertyDeclarations h node staticPropertyAssignments ctx3
                            else Inr ctx3) of
                        Inl err \<Rightarrow> Inl err
                      | Inr ctx4 \<Rightarrow>
                          (case emitDecoratorsOfClass h node ctx4 of
                             Inl err \<Rightarrow> Inl err
                           | Inr ctx5 \<Rightarrow> Inr (None, ctx5)))))"

section \<open>The specification's words as definitions\<close>

text \<open>
  The definitions of this section follow the specification (sections 4.3 and 4.4), not the
  source: the theorems below compare them with the functions of the pass.
\<close>

definition parameterWrappers :: "host \<Rightarrow> nat \<times> parameter_declaration \<Rightarrow> node list" where
  "parameterWrappers h ip =
     (case p_decorators (snd ip) of
        None \<Rightarrow> []
      | Some ds \<Rightarrow>
          map (\<lambda>d. CallExpression (Identifier ''__param'')
                      [NumericLiteral (fst ip), visitExpression h (expression d)]) ds)"

definition specParameterDecoratorList :: "host \<Rightarrow> parameter_declaration list \<Rightarrow> node list" where
  "specParameterDecoratorList h ps = concat (map (parameterWrappers h) (enumerate 0 ps))"

definition specMetadataCalls :: "host \<Rightarrow> syntax_kind \<Rightarrow> node list" where
  "specMetadataCalls h k =
     (if emitDecoratorMetadata h then
        (if shouldEmitTypeMetadata k then [metadataCall ''design:type''] else []) @
        (if shouldEmitParamTypesMetadata k then [metadataCall ''design:paramtypes''] else []) @
        (if shouldEmitReturnTypeMetadata k then [metadataCall ''design:returntype''] else [])
      else [])"

definition constructorParameters :: "class_like \<Rightarrow> parameter_declaration list" where
  "constructorParameters node =
     (case getFirstConstructorWithBody node of Some c \<Rightarrow> ce_parameters c | None \<Rightarrow> [])"

definition decoratorsOrNone :: "decorator list option \<Rightarrow> decorator list" where
  "decoratorsOrNone ds = (case ds of Some xs \<Rightarrow> xs | None \<Rightarrow> [])"

definition specDecoratorList ::
  "host \<Rightarrow> syntax_kind \<Rightarrow> decorator list \<Rightarrow> parameter_declaration list \<Rightarrow> node list" where
  "specDecoratorList h k ds ps =
     map (\<lambda>d. visitExpression h (expression d)) ds
     @ specParameterDecoratorList h ps
     @ specMetadataCalls h k"

definition parametersOrNone :: "parameter_declaration list option \<Rightarrow> parameter_declaration list" where
  "parametersOrNone ps = (case ps of Some xs \<Rightarrow> xs | None \<Rightarrow> [])"

definition specAccessorDecorators :: "all_accessor_declarations \<Rightarrow> decorator list" where
  "specAccessorDecorators accessors =
     (case ce_decorators (firstAccessor accessors) of
        Some ds \<Rightarrow> ds
      | None \<Rightarrow>
          (case secondAccessor accessors of
             Some second \<Rightarrow> decoratorsOrNone (ce_decorators second)
           | None \<Rightarrow> []))"

definition specAccessorParameters :: "all_accessor_declarations \<Rightarrow> parameter_declaration list" where
  "specAccessorParameters accessors =
     (case setAccessor accessors of Some setter \<Rightarrow> ce_parameters setter | None \<Rightarrow> [])"

definition specMemberStatement ::
  "host \<Rightarrow> class_like \<Rightarrow> class_element \<Rightarrow> decorator list \<Rightarrow> parameter_declaration list \<Rightarrow>
   node \<Rightarrow> node \<Rightarrow> node \<Rightarrow> statement" where
  "specMemberStatement h node member ds ps name1 name2 name3 =
     (if isPropertyDeclaration member then
        ExpressionStatement
          (CallExpression (Identifier ''__decorate'')
             [ArrayLiteralExpression (specDecoratorList h (c_kind node) ds ps),
              getClassMemberPrefix h node member, name1])
      else
        ExpressionStatement
          (CallExpression (objectMember ''defineProperty'')
             [getClassMemberPrefix h node member, name3,
              CallExpression (Identifier ''__decorate'')
                [ArrayLiteralExpression (specDecoratorList h (c_kind node) ds ps),
                 getClassMemberPrefix h node member, name1,
                 CallExpression (objectMember ''getOwnPropertyDescriptor'')
                   [getClassMemberPrefix h node member, name2]]]))"

definition memberIsLowered :: "host \<Rightarrow> class_like \<Rightarrow> bool \<Rightarrow> class_element \<Rightarrow> bool" where
  "memberIsLowered h node isStatic member =
     (ce_static member = isStatic \<and> nodeCanBeDecorated h member
      \<and> nodeOrChildIsDecorated h member
      \<and> memberDecoratorsAndParameters h node member \<noteq> None)"

definition specClassStatements :: "host \<Rightarrow> class_like \<Rightarrow> statement list" where
  "specClassStatements h node =
     (if c_decorators node = None \<and> (\<forall>p \<in> set (constructorParameters node). p_decorators p = None)
      then []
      else [ExpressionStatement
              (AssignmentExpression (getDeclarationName h node)
                 (CallExpression (Identifier ''__decorate'')
                    [ArrayLiteralExpression
                       (specDecoratorList h (c_kind node) (decoratorsOrNone (c_decorators node))
                          (constructorParameters node)),
                     getDeclarationName h node]))])"

definition isDecoratorStatementOf :: "host \<Rightarrow> class_like \<Rightarrow> class_element \<Rightarrow> statement \<Rightarrow> bool" where
  "isDecoratorStatementOf h node member s =
     (\<exists>ds ps name1 name2 name3.
        memberDecoratorsAndParameters h node member = Some (ds, ps)
        \<and> s = specMemberStatement h node member (decoratorsOrNone ds) (parametersOrNone ps)
                 name1 name2 name3)"

definition specParameterAssignment :: "parameter_declaration \<Rightarrow> statement" where
  "specParameterAssignment p =
     ExpressionStatement
       (AssignmentExpression (PropertyAccessExpression ThisKeyword (p_name p)) (p_name p))"

definition specInstanceName :: "host \<Rightarrow> node \<Rightarrow> node" where
  "specInstanceName h name =
     (case name of
        ComputedPropertyName i e \<Rightarrow> ComputedPropertyName i (visitExpression h e)
      | other \<Rightarrow> other)"

definition specFieldAssignment :: "host \<Rightarrow> class_element \<Rightarrow> statement" where
  "specFieldAssignment h property =
     ExpressionStatement
       (AssignmentExpression
          (MemberAccessForPropertyName ThisKeyword (specInstanceName h (ce_name property)))
          (case ce_initializer property of Some e \<Rightarrow> visitExpression h e | None \<Rightarrow> Undefined))"

definition specLeadingSuperCall :: "bool \<Rightarrow> class_element \<Rightarrow> statement list" where
  "specLeadingSuperCall hasBaseType ctor =
     (if hasBaseType then (case findInitialSuperCall ctor of Some s \<Rightarrow> [s] | None \<Rightarrow> [])
      else [])"

definition specForwardingSuperCall :: statement where
  "specForwardingSuperCall =
     ExpressionStatement
       (CallExpression SuperKeyword [SpreadElementExpression (Identifier ''args'')])"

fun isBaseConstructorCall :: "statement \<Rightarrow> bool" where
  "isBaseConstructorCall (ExpressionStatement (CallExpression SuperKeyword args)) = True"
| "isBaseConstructorCall s = False"

text \<open>The names returned by \<open>n\<close> successive resolutions of one member's name that are not per instance.\<close>

fun resolveRepeatedly ::
  "host \<Rightarrow> class_element \<Rightarrow> nat \<Rightarrow> visitor_context \<Rightarrow> error + (node list \<times> visitor_context)" where
  "resolveRepeatedly h container 0 ctx = Inr ([], ctx)"
| "resolveRepeatedly h container (Suc n) ctx =
     (case transformPropertyName h container False ctx of
        Inl err \<Rightarrow> Inl err
      | Inr (name, ctx1) \<Rightarrow>
          (case resolveRepeatedly h container n ctx1 of
             Inl err \<Rightarrow> Inl err
           | Inr (names, ctx2) \<Rightarrow> Inr (name # names, ctx2)))"

section \<open>Sample inputs\<close>

text \<open>
  A host for the examples: visitors that return their argument (what \<^verbatim>\<open>transformNode\<close>
  does on a node without transform flags), one pinned comment before the node at position
  10, metadata emission on, and the accessors of a name looked up in member order.
\<close>

definition sampleAccessors :: "class_element list \<Rightarrow> class_element \<Rightarrow> all_accessor_declarations" where
  "sampleAccessors members accessor =
     (let same = filter (\<lambda>m. isAccessor m \<and> ce_static m = ce_static accessor
                              \<and> ce_name m = ce_name accessor) members
      in \<lparr>firstAccessor = (case same of [] \<Rightarrow> accessor | a # rest \<Rightarrow> a),
          secondAccessor = (case same of a # b # rest \<Rightarrow> Some b | _ \<Rightarrow> None),
          getAccessor = find (\<lambda>m. ce_kind m = GetAccessor) same,
          setAccessor = find (\<lambda>m. ce_kind m = SetAccessor) same\<rparr>)"

definition sampleClassName :: "class_like \<Rightarrow> node" where
  "sampleClassName c = (case c_name c of Some n \<Rightarrow> n | None \<Rightarrow> Undefined)"

definition plainHost :: host where
  "plainHost =
     \<lparr>visitExpression = (\<lambda>e. e),
      visitNodes = (\<lambda>ss. ss),
      visitBlock = (\<lambda>ss. ss),
      visitNodeArrayOfParameter = (\<lambda>ps. ps),
      visitNodeArrayOfModifier = (\<lambda>ms. ms),
      visitNodeArrayOfExpressionWithTypeArguments = (\<lambda>ts. ts),
      accept = Some,
      getLeadingCommentRanges = (\<lambda>m pinned. if ce_pos m = 10 then Some [(0, 8)] else None),
      getTrailingCommentRanges = (\<lambda>m. None),
      getDeclarationName = sampleClassName,
      getClassMemberPrefix =
        (\<lambda>c m. if ce_static m then sampleClassName c
               else PropertyAccessExpression (sampleClassName c) (Identifier ''prototype'')),
      emitDecoratorMetadata = True,
      getAllAccessorDeclarations = sampleAccessors,
      nodeCanBeDecorated =
        (\<lambda>m. ce_kind m = PropertyDeclaration \<or> ce_kind m = MethodDeclaration
              \<or> ce_kind m = GetAccessor \<or> ce_kind m = SetAccessor),
      nodeIsDecorated = (\<lambda>m. ce_decorators m \<noteq> None),
      nodeOrChildIsDecorated =
        (\<lambda>m. list_ex parameterIsDecorated (ce_parameters m) \<or> ce_decorators m \<noteq> None),
      generatedNameText = (\<lambda>n. CHR ''_'' # replicate (Suc n) CHR ''a''),
      uniqueNameText = (\<lambda>text n. text @ CHR ''_'' # replicate (Suc n) CHR ''1'')\<rparr>"

definition emptyContext :: visitor_context where
  "emptyContext =
     \<lparr>statements = [], outerStatements = [], generatedNames = Map.empty, nextName = 0,
      hoistedVariableDeclarations = []\<rparr>"

definition plainParameter :: "string \<Rightarrow> parameter_declaration" where
  "plainParameter x =
     \<lparr>p_decorators = None, p_accessibility = False, p_dotDotDotToken = False,
      p_name = Identifier x\<rparr>"

definition decoratedParameter :: "string \<Rightarrow> string list \<Rightarrow> parameter_declaration" where
  "decoratedParameter x ds =
     \<lparr>p_decorators = Some (map (\<lambda>d. Decorator (Identifier d)) ds), p_accessibility = False,
      p_dotDotDotToken = False, p_name = Identifier x\<rparr>"

definition publicParameter :: "string \<Rightarrow> parameter_declaration" where
  "publicParameter x =
     \<lparr>p_decorators = None, p_accessibility = True, p_dotDotDotToken = False,
      p_name = Identifier x\<rparr>"

definition callStatement :: "string \<Rightarrow> statement" where
  "callStatement f = ExpressionStatement (CallExpression (Identifier f) [])"

definition sampleMember ::
  "syntax_kind \<Rightarrow> int \<Rightarrow> bool \<Rightarrow> string list option \<Rightarrow> node \<Rightarrow> parameter_declaration list \<Rightarrow>
   statement list option \<Rightarrow> node option \<Rightarrow> class_element" where
  "sampleMember k pos static ds name ps body init =
     ClassElement k pos static False (map_option (map (\<lambda>d. Decorator (Identifier d))) ds) []
       name ps body init None None"

definition sampleClass ::
  "string list option \<Rightarrow> string option \<Rightarrow> class_element list \<Rightarrow> class_like" where
  "sampleClass ds base members =
     ClassLike ClassDeclaration 0 (map_option (map (\<lambda>d. Decorator (Identifier d))) ds) []
       (Some (Identifier ''C''))
       (case base of
          Some b \<Rightarrow> Some [\<lparr>token = ExtendsKeyword,
                          types = [ExpressionWithTypeArguments (Identifier b) None]\<rparr>]
        | None \<Rightarrow> None)
       members"

text \<open>\<^verbatim>\<open>@dec class C { constructor(a, @p1 @p2 b, @p3 c) {} }\<close>\<close>

definition decoratedClass :: class_like where
  "decoratedClass =
     sampleClass (Some [''dec'']) None
       [sampleMember Constructor 20 False None Undefined
          [plainParameter ''a'', decoratedParameter ''b'' [''p1'', ''p2''],
           decoratedParameter ''c'' [''p3'']]
          (Some []) None]"

text \<open>A member whose name is a binding pattern, and the method \<^verbatim>\<open>m() {}\<close>.\<close>

definition patternNamedMember :: class_element where
  "patternNamedMember =
     sampleMember PropertyDeclaration 50 False None (ObjectBindingPattern 51) [] None None"

definition plainMethod :: class_element where
  "plainMethod =
     sampleMember MethodDeclaration 52 False None (Identifier ''m'') [] (Some []) None"

text \<open>\<^verbatim>\<open>class C { get v() {} @dec set v(@p x) {} }\<close>: only the setter is decorated.\<close>

definition sampleGetter :: class_element where
  "sampleGetter = sampleMember GetAccessor 30 False None (Identifier ''v'') [] (Some []) None"

definition sampleSetter :: class_element where
  "sampleSetter =
     sampleMember SetAccessor 31 False (Some [''dec'']) (Identifier ''v'')
       [decoratedParameter ''x'' [''p'']] (Some []) None"

definition accessorClass :: class_like where
  "accessorClass = sampleClass None None [sampleGetter, sampleSetter]"

text \<open>
  \<^verbatim>\<open>@dec class C { constructor(@p a) {} @a m1() {} @b static s1() {} @c m2() {} }\<close>
\<close>

definition groupedCtor :: class_element where
  "groupedCtor =
     sampleMember Constructor 40 False None Undefined [decoratedParameter ''a'' [''p'']]
       (Some []) None"

definition methodM1 :: class_element where
  "methodM1 =
     sampleMember MethodDeclaration 41 False (Some [''a'']) (Identifier ''m1'') [] (Some []) None"

definition methodS1 :: class_element where
  "methodS1 =
     sampleMember MethodDeclaration 42 True (Some [''b'']) (Identifier ''s1'') [] (Some []) None"

definition methodM2 :: class_element where
  "methodM2 =
     sampleMember MethodDeclaration 43 False (Some [''c'']) (Identifier ''m2'') [] (Some []) None"

definition groupedClass :: class_like where
  "groupedClass = sampleClass (Some [''dec'']) None [groupedCtor, methodM1, methodS1, methodM2]"

text \<open>
  \<^verbatim>\<open>class C { /*! pinned */ constructor(a); constructor(a) { run(); } }\<close>: the overload
  signature at position 10 has the pinned comment.
\<close>

definition overloadSignature :: class_element where
  "overloadSignature =
     sampleMember Constructor 10 False None Undefined [plainParameter ''a''] None None"

definition implementationCtor :: class_element where
  "implementationCtor =
     sampleMember Constructor 20 False None Undefined [plainParameter ''a'']
       (Some [callStatement ''run'']) None"

definition overloadedClass :: class_like where
  "overloadedClass = sampleClass None None [overloadSignature, implementationCtor]"

text \<open>\<^verbatim>\<open>constructor(public x) { ...body }\<close>, the statement \<^verbatim>\<open>super()\<close>, and two fields.\<close>

definition publicCtor :: "statement list \<Rightarrow> class_element" where
  "publicCtor body =
     sampleMember Constructor 20 False None Undefined [publicParameter ''x''] (Some body) None"

definition superCallStatement :: statement where
  "superCallStatement = ExpressionStatement (CallExpression SuperKeyword [])"

definition fieldX :: class_element where
  "fieldX =
     sampleMember PropertyDeclaration 60 False None (Identifier ''x'') [] None
       (Some (NumericLiteral 1))"

definition staticFieldY :: class_element where
  "staticFieldY =
     sampleMember PropertyDeclaration 61 True None (Identifier ''y'') [] None
       (Some (NumericLiteral 2))"

text \<open>\<^verbatim>\<open>@dec static [key()]() {}\<close>\<close>

definition computedStaticMethod :: class_element where
  "computedStaticMethod =
     sampleMember MethodDeclaration 70 True (Some [''dec''])
       (ComputedPropertyName 71 (CallExpression (Identifier ''key'') [])) [] (Some []) None"

text \<open>\<^verbatim>\<open>class C extends B { x = 1 }\<close>\<close>

definition derivedClass :: class_like where
  "derivedClass = sampleClass None (Some ''B'') [fieldX]"

text \<open>\<^verbatim>\<open>class C extends B { x = 1; constructor(public x, y, public z) { super(); run(); } }\<close>\<close>

definition propertyCtor :: class_element where
  "propertyCtor =
     sampleMember Constructor 20 False None Undefined
       [publicParameter ''x'', plainParameter ''y'', publicParameter ''z'']
       (Some [superCallStatement, callStatement ''run'']) None"

definition propertyClass :: class_like where
  "propertyClass = sampleClass None (Some ''B'') [fieldX, propertyCtor]"

text \<open>
  The context after the first resolution of the name of \<^verbatim>\<open>@dec static [key()]() {}\<close>: the
  name node has the generated name \<^verbatim>\<open>_a\<close>, and the local is hoisted.
\<close>

definition afterFirstResolution :: visitor_context where
  "afterFirstResolution =
     emptyContext\<lparr>generatedNames := [71 \<mapsto> ''_a''], nextName := 1,
                   hoistedVariableDeclarations := [Identifier ''_a'']\<rparr>"

section \<open>Decorator lowering: the emitted lists\<close>

lemma pushDecoratorExpressions_eq:
  "pushDecoratorExpressions h ds acc = acc @ map (\<lambda>d. visitExpression h (expression d)) ds"
  by (induction ds arbitrary: acc) simp_all

lemma pushParameterDecorators_eq:
  "pushParameterDecorators h i ds acc =
     acc @ map (\<lambda>d. CallExpression (Identifier ''__param'')
                      [NumericLiteral i, visitExpression h (expression d)]) ds"
  by (induction ds arbitrary: acc) simp_all

lemma emitDecoratorsOfParametersFrom_eq:
  "emitDecoratorsOfParametersFrom h i ps acc =
     acc @ concat (map (parameterWrappers h) (enumerate i ps))"
  by (induction ps arbitrary: i acc)
     (simp_all add: parameterWrappers_def parameterIsDecorated_def pushParameterDecorators_eq
        split: option.splits)

lemma emitDecoratorsOfParameters_eq:
  "emitDecoratorsOfParameters h ps acc = acc @ specParameterDecoratorList h ps"
  by (simp add: emitDecoratorsOfParameters_def specParameterDecoratorList_def
        emitDecoratorsOfParametersFrom_eq)

lemma specParameterDecoratorList_Nil [simp]: "specParameterDecoratorList h [] = []"
  by (simp add: specParameterDecoratorList_def)

lemma emitSerializedTypeMetadata_eq:
  "emitDecoratorMetadata h \<Longrightarrow> emitSerializedTypeMetadata k acc = acc @ specMetadataCalls h k"
  by (simp add: emitSerializedTypeMetadata_def specMetadataCalls_def Let_def)

lemma memberDecoratorExpressions_eq:
  "memberDecoratorExpressions h node ds ps =
     specDecoratorList h (c_kind node) (decoratorsOrNone ds) (case ps of Some xs \<Rightarrow> xs | None \<Rightarrow> [])"
  by (cases ds; cases ps)
     (simp_all add: memberDecoratorExpressions_def specDecoratorList_def decoratorsOrNone_def Let_def
        pushDecoratorExpressions_eq emitDecoratorsOfParameters_eq emitSerializedTypeMetadata_eq
        specMetadataCalls_def)

lemma hasDecoratedParameters_iff:
  "hasDecoratedParameters (getFirstConstructorWithBody node) \<longleftrightarrow>
     (\<exists>p \<in> set (constructorParameters node). p_decorators p \<noteq> None)"
  by (auto simp: hasDecoratedParameters_def constructorParameters_def list_ex_iff
        parameterIsDecorated_def split: option.splits)

lemma transformPropertyName_buffers:
  "transformPropertyName h c p ctx = Inr (n, ctx') \<Longrightarrow>
     statements ctx' = statements ctx \<and> outerStatements ctx' = outerStatements ctx"
  by (cases "ce_name c")
     (auto simp: transformPropertyName_def getDeclarationNameOfMember_def Let_def
        getGeneratedNameForNode_def hoistVariableDeclaration_def
        split: prod.splits if_splits option.splits)

lemma transformPropertyName_succeeds:
  "isPropertyName (ce_name c) \<Longrightarrow> \<exists>n ctx'. transformPropertyName h c p ctx = Inr (n, ctx')"
  by (cases "ce_name c")
     (auto simp: transformPropertyName_def getDeclarationNameOfMember_def Let_def split: prod.splits)

lemma getExpressionForPropertyName_succeeds:
  assumes "isPropertyName (ce_name c)"
  shows "\<exists>n ctx'. getExpressionForPropertyName h c ctx = Inr (n, ctx')
           \<and> statements ctx' = statements ctx \<and> outerStatements ctx' = outerStatements ctx"
proof -
  obtain n ctx' where r: "transformPropertyName h c False ctx = Inr (n, ctx')"
    using transformPropertyName_succeeds[OF assms] by blast
  have b: "statements ctx' = statements ctx \<and> outerStatements ctx' = outerStatements ctx"
    using transformPropertyName_buffers[OF r] .
  show ?thesis
    using r b by (cases n) (simp_all add: getExpressionForPropertyName_def)
qed

lemma emitDecoratorsOfMember_skipped:
  "memberDecoratorsAndParameters h node member = None \<Longrightarrow>
     emitDecoratorsOfMember h node member ctx = Inr ctx"
  by (simp add: emitDecoratorsOfMember_def)

lemma emitDecoratorsOfMember_emits:
  assumes sel: "memberDecoratorsAndParameters h node member = Some (ds, ps)"
      and nm: "isPropertyName (ce_name member)"
  shows "\<exists>name1 name2 name3 ctx'.
           emitDecoratorsOfMember h node member ctx = Inr ctx'
           \<and> statements ctx' = statements ctx @
                [specMemberStatement h node member (decoratorsOrNone ds) (parametersOrNone ps)
                   name1 name2 name3]
           \<and> outerStatements ctx' = outerStatements ctx"
proof -
  obtain n1 c1 where 1: "getExpressionForPropertyName h member ctx = Inr (n1, c1)"
      "statements c1 = statements ctx" "outerStatements c1 = outerStatements ctx"
    using getExpressionForPropertyName_succeeds[OF nm] by blast
  obtain n2 c2 where 2: "getExpressionForPropertyName h member c1 = Inr (n2, c2)"
      "statements c2 = statements c1" "outerStatements c2 = outerStatements c1"
    using getExpressionForPropertyName_succeeds[OF nm] by blast
  obtain n3 c3 where 3: "getExpressionForPropertyName h member c2 = Inr (n3, c3)"
      "statements c3 = statements c2" "outerStatements c3 = outerStatements c2"
    using getExpressionForPropertyName_succeeds[OF nm] by blast
  have list: "memberDecoratorExpressions h node ds ps =
                specDecoratorList h (c_kind node) (decoratorsOrNone ds) (parametersOrNone ps)"
    by (simp add: memberDecoratorExpressions_eq parametersOrNone_def)
  show ?thesis
  proof (cases "isPropertyDeclaration member")
    case True
    then show ?thesis
      using sel 1 list
      by (simp add: emitDecoratorsOfMember_def Let_def specMemberStatement_def
            emitExpressionStatement_def emitStatement_def)
  next
    case False
    then show ?thesis
      using sel 1 2 3 list
      by (simp add: emitDecoratorsOfMember_def Let_def specMemberStatement_def
            emitExpressionStatement_def emitStatement_def)
  qed
qed

lemma emitDecoratorsOfMembersLoop_order:
  assumes "\<forall>m \<in> set members.
             nodeCanBeDecorated h m \<and> nodeOrChildIsDecorated h m \<longrightarrow> isPropertyName (ce_name m)"
  shows "\<exists>ctx' emitted.
           emitDecoratorsOfMembersLoop h node isStatic members ctx = Inr ctx'
           \<and> statements ctx' = statements ctx @ emitted
           \<and> list_all2 (isDecoratorStatementOf h node)
                (filter (memberIsLowered h node isStatic) members) emitted"
  using assms
proof (induction members arbitrary: ctx)
  case Nil
  then show ?case by simp
next
  case (Cons member rest)
  have nm: "nodeCanBeDecorated h member \<and> nodeOrChildIsDecorated h member
              \<longrightarrow> isPropertyName (ce_name member)"
    and rest: "\<forall>m \<in> set rest.
                 nodeCanBeDecorated h m \<and> nodeOrChildIsDecorated h m \<longrightarrow> isPropertyName (ce_name m)"
    using Cons.prems by simp_all
  show ?case
  proof (cases "memberIsLowered h node isStatic member")
    case False
    obtain ctx' emitted where
      r: "emitDecoratorsOfMembersLoop h node isStatic rest ctx = Inr ctx'"
         "statements ctx' = statements ctx @ emitted"
         "list_all2 (isDecoratorStatementOf h node)
            (filter (memberIsLowered h node isStatic) rest) emitted"
      using Cons.IH[OF rest, of ctx] by blast
    have "emitDecoratorsOfMembersLoop h node isStatic (member # rest) ctx =
            emitDecoratorsOfMembersLoop h node isStatic rest ctx"
    proof (cases "memberDecoratorsAndParameters h node member")
      case None
      then show ?thesis
        by (simp add: emitDecoratorsOfMember_skipped)
    next
      case (Some a)
      then show ?thesis
        using False by (auto simp: memberIsLowered_def)
    qed
    then show ?thesis using r False by auto
  next
    case True
    then obtain ds ps where sel: "memberDecoratorsAndParameters h node member = Some (ds, ps)"
      by (auto simp: memberIsLowered_def)
    have nm: "isPropertyName (ce_name member)"
      using True nm by (simp add: memberIsLowered_def)
    obtain n1 n2 n3 ctx1 where
      e: "emitDecoratorsOfMember h node member ctx = Inr ctx1"
         "statements ctx1 = statements ctx @
            [specMemberStatement h node member (decoratorsOrNone ds) (parametersOrNone ps) n1 n2 n3]"
      using emitDecoratorsOfMember_emits[OF sel nm, of ctx] by blast
    obtain ctx' emitted where
      r: "emitDecoratorsOfMembersLoop h node isStatic rest ctx1 = Inr ctx'"
         "statements ctx' = statements ctx1 @ emitted"
         "list_all2 (isDecoratorStatementOf h node)
            (filter (memberIsLowered h node isStatic) rest) emitted"
      using Cons.IH[OF rest, of ctx1] by blast
    have step: "emitDecoratorsOfMembersLoop h node isStatic (member # rest) ctx =
            emitDecoratorsOfMembersLoop h node isStatic rest ctx1"
      using True e(1) by (auto simp: memberIsLowered_def)
    have this_one: "isDecoratorStatementOf h node member
            (specMemberStatement h node member (decoratorsOrNone ds) (parametersOrNone ps) n1 n2 n3)"
      using sel by (auto simp: isDecoratorStatementOf_def)
    show ?thesis
      using step r e(2) True this_one
      by (intro exI[of _ ctx'] exI[of _ "specMemberStatement h node member (decoratorsOrNone ds) (parametersOrNone ps) n1 n2 n3 # emitted"]) simp
  qed
qed

lemma emitDecoratorsOfConstructor_statements:
  "emitDecoratorsOfConstructor h node ctx =
     ctx\<lparr>statements := statements ctx @ specClassStatements h node\<rparr>"
proof -
  have list: "(let e0 = (case c_decorators node of Some ds \<Rightarrow> pushDecoratorExpressions h ds [] | None \<Rightarrow> []);
                e1 = (case getFirstConstructorWithBody node of
                        Some c \<Rightarrow> emitDecoratorsOfParameters h (ce_parameters c) e0
                      | None \<Rightarrow> e0)
            in if emitDecoratorMetadata h then emitSerializedTypeMetadata (c_kind node) e1 else e1)
        = specDecoratorList h (c_kind node) (decoratorsOrNone (c_decorators node))
                            (constructorParameters node)"
    by (cases "c_decorators node"; cases "getFirstConstructorWithBody node")
       (simp_all add: specDecoratorList_def decoratorsOrNone_def Let_def constructorParameters_def
        pushDecoratorExpressions_eq emitDecoratorsOfParameters_eq emitSerializedTypeMetadata_eq
        specMetadataCalls_def)
  show ?thesis
    unfolding emitDecoratorsOfConstructor_def specClassStatements_def
    using list hasDecoratedParameters_iff[of node]
    by (auto simp: Let_def emitAssignmentStatement_def emitExpressionStatement_def emitStatement_def)
qed

section \<open>Constructor synthesis: the emitted body\<close>

lemma emitParameterPropertyAssignments_eq:
  "emitParameterPropertyAssignments ps ctx =
     ctx\<lparr>statements := statements ctx @ map specParameterAssignment ps\<rparr>"
  by (induction ps arbitrary: ctx)
     (simp_all add: emitAssignmentStatement_def emitExpressionStatement_def emitStatement_def
        specParameterAssignment_def)

lemma transformPropertyName_perInstance:
  "isPropertyName (ce_name c) \<Longrightarrow>
     transformPropertyName h c True ctx = Inr (specInstanceName h (ce_name c), ctx)"
  by (cases "ce_name c")
     (simp_all add: transformPropertyName_def getDeclarationNameOfMember_def specInstanceName_def)

lemma emitPropertyDeclarations_instance:
  "\<forall>p \<in> set properties. \<not> ce_static p \<and> isPropertyName (ce_name p) \<Longrightarrow>
     emitPropertyDeclarations h node properties ctx =
       Inr (ctx\<lparr>statements := statements ctx @ map (specFieldAssignment h) properties\<rparr>)"
  by (induction properties arbitrary: ctx)
     (simp_all add: transformPropertyDeclaration_def transformPropertyName_perInstance
        emitStatement_def specFieldAssignment_def)

lemma getInitializedProperties_instance:
  "p \<in> set (getInitializedProperties node False) \<Longrightarrow> \<not> ce_static p"
  by (simp add: getInitializedProperties_def)

lemma popStatements_restores:
  "popStatements (pushStatements ctx\<lparr>statements := ss\<rparr>) = ctx"
  by (simp add: popStatements_def pushStatements_def)

lemma transformConstructor_without_constructor:
  assumes "getFirstConstructorWithBody node = None"
      and "getInitializedProperties node False \<noteq> []"
      and "\<forall>p \<in> set (getInitializedProperties node False). isPropertyName (ce_name p)"
  shows "transformConstructor h node True ctx =
           Inr (Some (attachCommentRanges
                        (createConstructor [createRestParameter (Identifier ''args'')]
                           (specForwardingSuperCall
                            # map (specFieldAssignment h) (getInitializedProperties node False)))
                        (overloadCommentRanges h (c_members node) None) None),
                ctx)"
proof -
  have inst: "\<forall>p \<in> set (getInitializedProperties node False).
                \<not> ce_static p \<and> isPropertyName (ce_name p)"
    using assms(3) getInitializedProperties_instance by blast
  show ?thesis
    using assms(1,2)
    by (simp add: transformConstructor_def Let_def emitPropertyDeclarations_instance[OF inst]
          emitExpressionStatement_def emitStatement_def getStatements_def
          specForwardingSuperCall_def popStatements_def pushStatements_def)
qed

lemma filter_field_assignments:
  "filter isBaseConstructorCall (map (specFieldAssignment h) ps) = []"
  by (induction ps) (simp_all add: specFieldAssignment_def)

lemma transformConstructor_with_constructor:
  assumes c: "getFirstConstructorWithBody node = Some c"
      and rewritten: "getParametersWithPropertyAssignments c \<noteq> []
                      \<or> getInitializedProperties node False \<noteq> []"
      and names: "\<forall>p \<in> set (getInitializedProperties node False). isPropertyName (ce_name p)"
  shows "transformConstructor h node hasBaseType ctx =
           Inr (Some (attachCommentRanges
                        (updateConstructor c (visitNodeArrayOfParameter h (ce_parameters c))
                           (specLeadingSuperCall hasBaseType c
                            @ map specParameterAssignment (getParametersWithPropertyAssignments c)
                            @ map (specFieldAssignment h) (getInitializedProperties node False)
                            @ visitNodes h
                                (case (if hasBaseType then findInitialSuperCall c else None) of
                                   Some s \<Rightarrow> bodyStatements c
                                 | None \<Rightarrow> drop 1 (bodyStatements c))))
                        (concatenate (overloadCommentRanges h (c_members node) None)
                           (getLeadingCommentRanges h c False))
                        (getTrailingCommentRanges h c)),
                ctx)"
proof -
  have inst: "\<forall>p \<in> set (getInitializedProperties node False).
                \<not> ce_static p \<and> isPropertyName (ce_name p)"
    using names getInitializedProperties_instance by blast
  show ?thesis
    using c rewritten
    by (cases "findInitialSuperCall c")
       (auto simp: transformConstructor_def Let_def emitPropertyDeclarations_instance[OF inst]
          emitParameterPropertyAssignments_eq emitStatements_def
          emitExpressionStatement_def emitStatement_def getStatements_def
          specLeadingSuperCall_def popStatements_def pushStatements_def)
qed

lemma overloadCommentRanges_None:
  "\<forall>m \<in> set members. isConstructor m \<and> ce_body m = None \<longrightarrow>
       getLeadingCommentRanges h m True = None \<or> getLeadingCommentRanges h m True = Some []
   \<Longrightarrow> overloadCommentRanges h members None = None"
  by (induction members) (auto simp: concatenate_def)

section \<open>Property name resolution: first and later resolutions\<close>

lemma transformPropertyName_first:
  assumes "ce_name container = ComputedPropertyName i e"
      and "nodeCanBeDecorated h container" and "nodeIsDecorated h container"
      and "generatedNames ctx i = None"
  shows "transformPropertyName h container False ctx =
           Inr (ComputedPropertyName i
                  (AssignmentExpression (Identifier (generatedNameText h (nextName ctx)))
                     (visitExpression h e)),
                ctx\<lparr>generatedNames := (generatedNames ctx)(i \<mapsto> generatedNameText h (nextName ctx)),
                    nextName := Suc (nextName ctx),
                    hoistedVariableDeclarations :=
                      hoistedVariableDeclarations ctx
                      @ [Identifier (generatedNameText h (nextName ctx))]\<rparr>)"
  using assms
  by (simp add: transformPropertyName_def getDeclarationNameOfMember_def Let_def
        nodeHasGeneratedName_def getGeneratedNameForNode_def hoistVariableDeclaration_def)

lemma transformPropertyName_later:
  assumes "ce_name container = ComputedPropertyName i e"
      and "generatedNames ctx i = Some g"
  shows "transformPropertyName h container False ctx = Inr (Identifier g, ctx)"
  using assms
  by (simp add: transformPropertyName_def getDeclarationNameOfMember_def
        nodeHasGeneratedName_def getGeneratedNameForNode_def)

lemma resolveRepeatedly_later:
  assumes "ce_name container = ComputedPropertyName i e"
      and "generatedNames ctx i = Some g"
  shows "resolveRepeatedly h container n ctx = Inr (replicate n (Identifier g), ctx)"
  by (induction n) (simp_all add: transformPropertyName_later[OF assms])

section \<open>Constructor synthesis: the remaining body statements\<close>

text \<open>
  Claim C1. A rewritten constructor should end with the remaining statements of the
  original body, without a leading base-constructor call that was already emitted first,
  no statement dropped and none emitted twice. The source selects the whole body when the
  leading base call was emitted and the body without its first statement otherwise, the
  reverse of that. For \<^verbatim>\<open>class C { constructor(public x) { first(); second(); } }\<close> the
  synthesized body is \<^verbatim>\<open>this.x = x; second();\<close>: the statement \<^verbatim>\<open>first()\<close> is dropped.
  For \<^verbatim>\<open>class C extends B { constructor(public x) { super(); second(); } }\<close> it is
  \<^verbatim>\<open>super(); this.x = x; super(); second();\<close>: the base call is emitted twice.
\<close>

theorem transformConstructor_body_statements_at_inputs:
  "transformConstructor plainHost
       (sampleClass None None [publicCtor [callStatement ''first'', callStatement ''second'']])
       False emptyContext =
     Inr (Some (publicCtor [specParameterAssignment (publicParameter ''x''),
                            callStatement ''second'']),
          emptyContext)
   \<and> transformConstructor plainHost
       (sampleClass None (Some ''B'') [publicCtor [superCallStatement, callStatement ''second'']])
       True emptyContext =
     Inr (Some (publicCtor [superCallStatement, specParameterAssignment (publicParameter ''x''),
                            superCallStatement, callStatement ''second'']),
          emptyContext)"
  by (simp add: sampleClass_def publicCtor_def sampleMember_def publicParameter_def
        callStatement_def superCallStatement_def specParameterAssignment_def
        getFirstConstructorWithBody_def isConstructor_def
        getInitializedProperties_def transformConstructor_def Let_def
        getParametersWithPropertyAssignments_def plainHost_def concatenate_def
        attachCommentRanges_def updateConstructor_def findInitialSuperCall_def
        bodyStatements_def pushStatements_def popStatements_def getStatements_def
        emitStatements_def emitStatement_def emitAssignmentStatement_def
        emitExpressionStatement_def emptyContext_def)

section \<open>Class lowering: the undecorated declaration\<close>

text \<open>
  Claim C2. An undecorated class declaration should stay in the output as a class
  declaration, followed by its trailing statements. The source builds the updated
  declaration and then neither emits nor returns it. For
  \<^verbatim>\<open>class C { x = 1; static y = 2; }\<close> the function returns nothing and the buffer holds
  the static field assignment \<^verbatim>\<open>C.y = 2\<close> alone: no class declaration is in the output.
\<close>

theorem transformClassDeclaration_output_at_undecorated_class:
  "transformClassDeclaration plainHost (sampleClass None None [fieldX, staticFieldY]) emptyContext
     = Inr (None,
            emptyContext\<lparr>statements :=
              [ExpressionStatement
                 (AssignmentExpression
                    (MemberAccessForPropertyName (Identifier ''C'') (Identifier ''y''))
                    (NumericLiteral 2))]\<rparr>)"
  by (simp add: sampleClass_def fieldX_def staticFieldY_def sampleMember_def
        transformClassDeclaration_def getClassExtendsHeritageClauseElement_def
        getFirstConstructorWithBody_def isConstructor_def
        getInitializedProperties_def transformConstructor_def Let_def
        plainHost_def concatenate_def transformNodeWorker_def
        attachCommentRanges_def createConstructor_def 
        transformPropertyDeclaration_def transformPropertyName_def getDeclarationNameOfMember_def
        pushStatements_def popStatements_def getStatements_def
        emitStatements_def emitStatement_def emitAssignmentStatement_def
        emitExpressionStatement_def emptyContext_def sampleClassName_def
        emitDecoratorsOfClass_def emitDecoratorsOfMembers_def emitDecoratorsOfConstructor_def
        hasDecoratedParameters_def List.map_filter_simps)

section \<open>Constructor synthesis: the path without a rewrite\<close>

text \<open>
  Claim C3, as amended. When no parameter of the constructor carries an accessibility
  modifier, no instance field carries an initializer, and no bodyless constructor overload
  has pinned leading comments, constructor synthesis returns the original constructor node
  unchanged, or nothing when the class has no constructor with a body, and leaves the
  context as it was.
\<close>

theorem transformConstructor_fast_path:
  assumes "\<forall>c. getFirstConstructorWithBody node = Some c \<longrightarrow>
                (\<forall>p \<in> set (ce_parameters c). \<not> p_accessibility p)"
      and "\<forall>m \<in> set (c_members node).
             ce_kind m = PropertyDeclaration \<and> \<not> ce_static m \<longrightarrow> ce_initializer m = None"
      and "\<forall>m \<in> set (c_members node).
             isConstructor m \<and> ce_body m = None \<longrightarrow>
               getLeadingCommentRanges h m True = None \<or> getLeadingCommentRanges h m True = Some []"
  shows "transformConstructor h node hasBaseType ctx = Inr (getFirstConstructorWithBody node, ctx)"
proof -
  have p: "(case getFirstConstructorWithBody node of
              Some c \<Rightarrow> getParametersWithPropertyAssignments c | None \<Rightarrow> []) = []"
    using assms(1)
    by (auto simp: getParametersWithPropertyAssignments_def filter_empty_conv split: option.splits)
  have i: "getInitializedProperties node False = []"
    using assms(2) by (auto simp: getInitializedProperties_def filter_empty_conv)
  show ?thesis
    using p i overloadCommentRanges_None[OF assms(3)]
    by (simp add: transformConstructor_def Let_def)
qed

theorem transformConstructor_fast_path_witness:
  "transformConstructor plainHost (sampleClass None None [implementationCtor]) False emptyContext
     = Inr (Some implementationCtor, emptyContext)"
  using transformConstructor_fast_path [of "sampleClass None None [implementationCtor]" plainHost False emptyContext]
  by (simp add: sampleClass_def implementationCtor_def sampleMember_def plainParameter_def
        getFirstConstructorWithBody_def isConstructor_def)

text \<open>
  The claim as first stated leaves the comments out. For a class with the overload
  signature \<^verbatim>\<open>constructor(a);\<close> under a pinned comment and the implementation
  \<^verbatim>\<open>constructor(a) { run(); }\<close>, no parameter has an accessibility modifier and no field has
  an initializer, and the result is a clone of the constructor with the gathered comment
  ranges attached, not the original node.
\<close>

theorem transformConstructor_fast_path_counterexample:
  "getFirstConstructorWithBody overloadedClass = Some implementationCtor
   \<and> map p_accessibility (ce_parameters implementationCtor) = [False]
   \<and> getInitializedProperties overloadedClass False = []
   \<and> transformConstructor plainHost overloadedClass False emptyContext =
       Inr (Some (attachCommentRanges implementationCtor (Some [(0, 8)]) None), emptyContext)
   \<and> transformConstructor plainHost overloadedClass False emptyContext \<noteq>
       Inr (getFirstConstructorWithBody overloadedClass, emptyContext)"
  by (simp add: overloadedClass_def sampleClass_def implementationCtor_def overloadSignature_def
        sampleMember_def plainParameter_def getFirstConstructorWithBody_def isConstructor_def
        getInitializedProperties_def transformConstructor_def Let_def
        getParametersWithPropertyAssignments_def plainHost_def concatenate_def cloneNode_def
        attachCommentRanges_def)

section \<open>Constructor synthesis: no constructor, a base type\<close>

text \<open>
  Claim C4. For a class with a declared base type, no constructor with a body and at
  least one initialized instance field (the names of those fields being property names,
  the only forms a property declaration has), the synthesized constructor has exactly one
  parameter, the rest parameter \<^verbatim>\<open>...args\<close>; its body starts with the base-constructor
  call \<^verbatim>\<open>super(...args)\<close>, followed by the field assignments; that call is the only
  base-constructor call of the body; the context is left as it was.
\<close>

theorem synthesized_constructor_forwards_rest_parameter:
  assumes "getClassExtendsHeritageClauseElement node \<noteq> None"
      and "getFirstConstructorWithBody node = None"
      and "getInitializedProperties node False \<noteq> []"
      and "\<forall>p \<in> set (getInitializedProperties node False). isPropertyName (ce_name p)"
  shows "\<exists>ctor.
           transformConstructor h node (getClassExtendsHeritageClauseElement node \<noteq> None) ctx
             = Inr (Some ctor, ctx)
           \<and> ce_kind ctor = Constructor
           \<and> map p_dotDotDotToken (ce_parameters ctor) = [True]
           \<and> map p_name (ce_parameters ctor) = [Identifier ''args'']
           \<and> ce_body ctor =
               Some (specForwardingSuperCall
                     # map (specFieldAssignment h) (getInitializedProperties node False))
           \<and> filter isBaseConstructorCall (bodyStatements ctor) = [specForwardingSuperCall]"
  using transformConstructor_without_constructor[OF assms(2,3,4), of h ctx] assms(1)
  by (simp add: attachCommentRanges_def createConstructor_def createRestParameter_def
        bodyStatements_def filter_field_assignments specForwardingSuperCall_def)

theorem synthesized_constructor_forwards_rest_parameter_witness:
  "\<exists>ctor.
     transformConstructor plainHost derivedClass True emptyContext = Inr (Some ctor, emptyContext)
     \<and> map p_dotDotDotToken (ce_parameters ctor) = [True]
     \<and> map p_name (ce_parameters ctor) = [Identifier ''args'']
     \<and> ce_body ctor =
         Some [ExpressionStatement
                 (CallExpression SuperKeyword [SpreadElementExpression (Identifier ''args'')]),
               ExpressionStatement
                 (AssignmentExpression
                    (MemberAccessForPropertyName ThisKeyword (Identifier ''x''))
                    (NumericLiteral 1))]"
proof -
  have base: "getClassExtendsHeritageClauseElement derivedClass \<noteq> None"
    by (simp add: derivedClass_def sampleClass_def getClassExtendsHeritageClauseElement_def)
  have noctor: "getFirstConstructorWithBody derivedClass = None"
    by (simp add: derivedClass_def sampleClass_def fieldX_def sampleMember_def
          getFirstConstructorWithBody_def)
  have fields: "getInitializedProperties derivedClass False = [fieldX]"
    by (simp add: derivedClass_def sampleClass_def fieldX_def sampleMember_def
          getInitializedProperties_def)
  have some: "getInitializedProperties derivedClass False \<noteq> []"
    by (simp add: fields)
  have names: "\<forall>p \<in> set (getInitializedProperties derivedClass False). isPropertyName (ce_name p)"
    by (simp add: fields fieldX_def sampleMember_def)
  have assignment: "specFieldAssignment plainHost fieldX =
      ExpressionStatement
        (AssignmentExpression
           (MemberAccessForPropertyName ThisKeyword (Identifier ''x'')) (NumericLiteral 1))"
    by (simp add: specFieldAssignment_def specInstanceName_def fieldX_def sampleMember_def
          plainHost_def)
  from synthesized_constructor_forwards_rest_parameter
         [OF base noctor some names, of plainHost emptyContext]
  show ?thesis
    using base by (auto simp: fields assignment specForwardingSuperCall_def)
qed

section \<open>Constructor synthesis: the parameter property assignments\<close>

text \<open>
  For a constructor with a body in a rewritten class, the synthesized body is made of four
  parts in this order: the leading base-constructor call of the original body, when the
  class has a base type and the body starts with one; one assignment
  \<^verbatim>\<open>this.<name> = <name>\<close> per accessibility-qualified parameter with an identifier name,
  in declared parameter order; the assignments of the initialized instance fields, in
  member order; the visited statements the source selects from the original body.
\<close>

lemma synthesized_body_parts:
  assumes "getFirstConstructorWithBody node = Some c"
      and "getParametersWithPropertyAssignments c \<noteq> []
           \<or> getInitializedProperties node False \<noteq> []"
      and "\<forall>p \<in> set (getInitializedProperties node False). isPropertyName (ce_name p)"
  shows "\<exists>ctor.
           transformConstructor h node hasBaseType ctx = Inr (Some ctor, ctx)
           \<and> ce_body ctor =
               Some (specLeadingSuperCall hasBaseType c
                     @ map specParameterAssignment
                         (filter (\<lambda>p. isIdentifier (p_name p) \<and> p_accessibility p) (ce_parameters c))
                     @ map (specFieldAssignment h) (getInitializedProperties node False)
                     @ visitNodes h
                         (if specLeadingSuperCall hasBaseType c = []
                          then drop 1 (bodyStatements c) else bodyStatements c))"
proof -
  have tail: "(case (if hasBaseType then findInitialSuperCall c else None) of
                 Some s \<Rightarrow> bodyStatements c
               | None \<Rightarrow> drop 1 (bodyStatements c)) =
              (if specLeadingSuperCall hasBaseType c = []
               then drop 1 (bodyStatements c) else bodyStatements c)"
    by (simp add: specLeadingSuperCall_def split: option.splits)
  show ?thesis
    using transformConstructor_with_constructor[OF assms, of h hasBaseType ctx] tail
    by (simp add: attachCommentRanges_def updateConstructor_def
          getParametersWithPropertyAssignments_def)
qed

text \<open>
  Claim C5. The assignments \<^verbatim>\<open>this.<name> = <name>\<close> of the parameter properties should
  come once each, in declared order, after any base-constructor call and before the field
  assignments. The source emits them after the leading base call and before the field
  assignments, and then, when that leading call was found, re-emits the whole original
  body, base call included. For
  \<^verbatim>\<open>class C extends B { x = 1; constructor(public x, y, public z) { super(); run(); } }\<close> the
  synthesized body is
  \<^verbatim>\<open>super(); this.x = x; this.z = z; this.x = 1; super(); run();\<close>: a base-constructor call
  follows the parameter property assignments.
\<close>

theorem transformConstructor_parameter_properties_at_input:
  "transformConstructor plainHost propertyClass True emptyContext =
     Inr (Some (sampleMember Constructor 20 False None Undefined
                  [publicParameter ''x'', plainParameter ''y'', publicParameter ''z'']
                  (Some [superCallStatement,
                         specParameterAssignment (publicParameter ''x''),
                         specParameterAssignment (publicParameter ''z''),
                         ExpressionStatement
                           (AssignmentExpression
                              (MemberAccessForPropertyName ThisKeyword (Identifier ''x''))
                              (NumericLiteral 1)),
                         superCallStatement,
                         callStatement ''run''])
                  None),
          emptyContext)"
  by (simp add: propertyClass_def propertyCtor_def sampleClass_def fieldX_def sampleMember_def
        publicParameter_def plainParameter_def callStatement_def superCallStatement_def
        specParameterAssignment_def getFirstConstructorWithBody_def
        getInitializedProperties_def transformConstructor_def Let_def
        getParametersWithPropertyAssignments_def plainHost_def concatenate_def
        attachCommentRanges_def updateConstructor_def findInitialSuperCall_def
        bodyStatements_def pushStatements_def popStatements_def getStatements_def
        emitStatements_def emitStatement_def emitAssignmentStatement_def
        emitExpressionStatement_def transformPropertyDeclaration_def transformPropertyName_def
        getDeclarationNameOfMember_def emptyContext_def)

section \<open>Class-level decorator lowering\<close>

text \<open>
  Claim C6. Class-level decorator lowering leaves the context as it is when neither the
  class nor a parameter of its constructor is decorated. Otherwise it emits the one
  statement \<^verbatim>\<open><binding> = __decorate(list, <binding>)\<close>, where the list holds the class
  decorators in source order, then one \<^verbatim>\<open>__param(index, decorator)\<close> call per decorator of
  each decorated constructor parameter, parameters by ascending index and decorators of
  one parameter in source order, then the metadata calls.
\<close>

theorem emitDecoratorsOfConstructor_list:
  "emitDecoratorsOfConstructor h node ctx =
     (if c_decorators node = None
         \<and> (\<forall>p \<in> set (constructorParameters node). p_decorators p = None)
      then ctx
      else ctx\<lparr>statements := statements ctx @
             [ExpressionStatement
                (AssignmentExpression (getDeclarationName h node)
                   (CallExpression (Identifier ''__decorate'')
                      [ArrayLiteralExpression
                         (map (\<lambda>d. visitExpression h (expression d))
                              (decoratorsOrNone (c_decorators node))
                          @ concat (map (parameterWrappers h)
                                      (enumerate 0 (constructorParameters node)))
                          @ specMetadataCalls h (c_kind node)),
                       getDeclarationName h node]))]\<rparr>)"
  by (simp add: emitDecoratorsOfConstructor_statements specClassStatements_def
        specDecoratorList_def specParameterDecoratorList_def)

theorem emitDecoratorsOfConstructor_list_witness:
  "statements (emitDecoratorsOfConstructor plainHost decoratedClass emptyContext) =
     [ExpressionStatement
        (AssignmentExpression (Identifier ''C'')
           (CallExpression (Identifier ''__decorate'')
              [ArrayLiteralExpression
                 [Identifier ''dec'',
                  CallExpression (Identifier ''__param'') [NumericLiteral 1, Identifier ''p1''],
                  CallExpression (Identifier ''__param'') [NumericLiteral 1, Identifier ''p2''],
                  CallExpression (Identifier ''__param'') [NumericLiteral 2, Identifier ''p3''],
                  CallExpression (Identifier ''__metadata'') [StringLiteral ''design:paramtypes'']],
               Identifier ''C'']))]
   \<and> emitDecoratorsOfConstructor plainHost accessorClass emptyContext = emptyContext"
  using emitDecoratorsOfConstructor_list [of plainHost decoratedClass emptyContext]
        emitDecoratorsOfConstructor_list [of plainHost accessorClass emptyContext]
  by (simp add: decoratedClass_def accessorClass_def sampleClass_def sampleMember_def
        sampleGetter_def sampleSetter_def plainHost_def emptyContext_def
        constructorParameters_def getFirstConstructorWithBody_def decoratorsOrNone_def
        parameterWrappers_def specMetadataCalls_def metadataCall_def
        plainParameter_def decoratedParameter_def sampleClassName_def numeral_2_eq_2)

section \<open>Member-level decorator lowering\<close>

text \<open>
  Claim C7. For an accessor with a body, member-level decorator lowering looks up the
  accessors of its name. An accessor that is not the first-declared one of its pair is
  skipped: nothing is emitted and the context is unchanged. The first-declared accessor
  emits exactly one statement; the decorator list of its \<^verbatim>\<open>__decorate\<close> call is made of
  the first accessor's own decorators, or of the second accessor's when the first has
  none, followed by parameter wrappers for the parameters of the set accessor only.
\<close>

theorem accessor_pair_lowered_once:
  assumes "isAccessor member" and "ce_body member \<noteq> None" and "isPropertyName (ce_name member)"
  shows "(member \<noteq> firstAccessor (getAllAccessorDeclarations h (c_members node) member) \<longrightarrow>
            emitDecoratorsOfMember h node member ctx = Inr ctx)
       \<and> (member = firstAccessor (getAllAccessorDeclarations h (c_members node) member) \<longrightarrow>
            (\<exists>name1 name2 name3 ctx'.
               emitDecoratorsOfMember h node member ctx = Inr ctx'
               \<and> statements ctx' = statements ctx @
                   [ExpressionStatement
                      (CallExpression (objectMember ''defineProperty'')
                         [getClassMemberPrefix h node member, name3,
                          CallExpression (Identifier ''__decorate'')
                            [ArrayLiteralExpression
                               (specDecoratorList h (c_kind node)
                                  (specAccessorDecorators
                                     (getAllAccessorDeclarations h (c_members node) member))
                                  (specAccessorParameters
                                     (getAllAccessorDeclarations h (c_members node) member))),
                             getClassMemberPrefix h node member, name1,
                             CallExpression (objectMember ''getOwnPropertyDescriptor'')
                               [getClassMemberPrefix h node member, name2]]])]))"
proof (intro conjI impI)
  assume "member \<noteq> firstAccessor (getAllAccessorDeclarations h (c_members node) member)"
  then have "memberDecoratorsAndParameters h node member = None"
    using assms(1,2) by (simp add: memberDecoratorsAndParameters_def Let_def)
  then show "emitDecoratorsOfMember h node member ctx = Inr ctx"
    by (rule emitDecoratorsOfMember_skipped)
next
  let ?acc = "getAllAccessorDeclarations h (c_members node) member"
  assume first: "member = firstAccessor ?acc"
  obtain ds ps where sel: "memberDecoratorsAndParameters h node member = Some (ds, ps)"
    and ds: "decoratorsOrNone ds = specAccessorDecorators ?acc"
    and ps: "parametersOrNone ps = specAccessorParameters ?acc"
    using assms(1,2) first
    by (auto simp: memberDecoratorsAndParameters_def Let_def specAccessorDecorators_def
          specAccessorParameters_def decoratorsOrNone_def parametersOrNone_def
          split: option.splits)
  have np: "\<not> isPropertyDeclaration member"
    using assms(1) by (auto simp: isAccessor_def isPropertyDeclaration_def)
  from emitDecoratorsOfMember_emits[OF sel assms(3), of ctx] ds ps np
  show "\<exists>name1 name2 name3 ctx'.
               emitDecoratorsOfMember h node member ctx = Inr ctx'
               \<and> statements ctx' = statements ctx @
                   [ExpressionStatement
                      (CallExpression (objectMember ''defineProperty'')
                         [getClassMemberPrefix h node member, name3,
                          CallExpression (Identifier ''__decorate'')
                            [ArrayLiteralExpression
                               (specDecoratorList h (c_kind node)
                                  (specAccessorDecorators ?acc)
                                  (specAccessorParameters ?acc)),
                             getClassMemberPrefix h node member, name1,
                             CallExpression (objectMember ''getOwnPropertyDescriptor'')
                               [getClassMemberPrefix h node member, name2]]])]"
    by (auto simp: specMemberStatement_def)
qed

theorem accessor_pair_lowered_once_witness:
  "sampleSetter \<noteq> firstAccessor (getAllAccessorDeclarations plainHost (c_members accessorClass) sampleSetter)
   \<and> emitDecoratorsOfMember plainHost accessorClass sampleSetter emptyContext = Inr emptyContext
   \<and> sampleGetter = firstAccessor (getAllAccessorDeclarations plainHost (c_members accessorClass) sampleGetter)
   \<and> (\<exists>name1 name2 name3 ctx'.
         emitDecoratorsOfMember plainHost accessorClass sampleGetter emptyContext = Inr ctx'
         \<and> statements ctx' =
             [ExpressionStatement
                (CallExpression (objectMember ''defineProperty'')
                   [PropertyAccessExpression (Identifier ''C'') (Identifier ''prototype''), name3,
                    CallExpression (Identifier ''__decorate'')
                      [ArrayLiteralExpression
                         [Identifier ''dec'',
                          CallExpression (Identifier ''__param'') [NumericLiteral 0, Identifier ''p''],
                          CallExpression (Identifier ''__metadata'')
                            [StringLiteral ''design:paramtypes'']],
                       PropertyAccessExpression (Identifier ''C'') (Identifier ''prototype''), name1,
                       CallExpression (objectMember ''getOwnPropertyDescriptor'')
                         [PropertyAccessExpression (Identifier ''C'') (Identifier ''prototype''),
                          name2]]])])"
  using accessor_pair_lowered_once [of sampleSetter plainHost accessorClass emptyContext]
        accessor_pair_lowered_once [of sampleGetter plainHost accessorClass emptyContext]
  by (simp add: accessorClass_def sampleClass_def sampleMember_def
        sampleGetter_def sampleSetter_def plainHost_def emptyContext_def sampleAccessors_def
        isAccessor_def specDecoratorList_def specParameterDecoratorList_def
        specAccessorDecorators_def specAccessorParameters_def decoratorsOrNone_def
        parameterWrappers_def specMetadataCalls_def metadataCall_def
        decoratedParameter_def sampleClassName_def)

section \<open>Property name resolution: a computed name and its decorator argument\<close>

text \<open>
  For a member that can be decorated and is decorated, with a computed name that has no
  generated name yet, a resolution that is not per instance returns the computed name with
  the transformed expression assigned to a newly generated local, hoists that local once
  and records it for the name node. Every later resolution that is not per instance, in
  any context that still records the name, returns the generated identifier and changes
  nothing: it neither visits the expression nor hoists again.
\<close>

lemma transformPropertyName_resolved_once:
  assumes "ce_name container = ComputedPropertyName i e"
      and "nodeCanBeDecorated h container" and "nodeIsDecorated h container"
      and "generatedNames ctx i = None"
  shows "\<exists>ctx1.
           transformPropertyName h container False ctx =
             Inr (ComputedPropertyName i
                    (AssignmentExpression (Identifier (generatedNameText h (nextName ctx)))
                       (visitExpression h e)),
                  ctx1)
           \<and> hoistedVariableDeclarations ctx1 =
               hoistedVariableDeclarations ctx @ [Identifier (generatedNameText h (nextName ctx))]
           \<and> generatedNames ctx1 i = Some (generatedNameText h (nextName ctx))
           \<and> (\<forall>ctx2. generatedNames ctx2 i = Some (generatedNameText h (nextName ctx)) \<longrightarrow>
                 transformPropertyName h container False ctx2 =
                   Inr (Identifier (generatedNameText h (nextName ctx)), ctx2))
           \<and> (\<forall>n. resolveRepeatedly h container (Suc n) ctx =
                 Inr (ComputedPropertyName i
                        (AssignmentExpression (Identifier (generatedNameText h (nextName ctx)))
                           (visitExpression h e))
                      # replicate n (Identifier (generatedNameText h (nextName ctx))),
                      ctx1))"
proof -
  let ?g = "generatedNameText h (nextName ctx)"
  let ?ctx1 = "ctx\<lparr>generatedNames := (generatedNames ctx)(i \<mapsto> ?g),
                    nextName := Suc (nextName ctx),
                    hoistedVariableDeclarations := hoistedVariableDeclarations ctx @ [Identifier ?g]\<rparr>"
  have first: "transformPropertyName h container False ctx =
                 Inr (ComputedPropertyName i (AssignmentExpression (Identifier ?g) (visitExpression h e)),
                      ?ctx1)"
    by (rule transformPropertyName_first[OF assms])
  have reg: "generatedNames ?ctx1 i = Some ?g" by simp
  have later: "\<forall>ctx2. generatedNames ctx2 i = Some ?g \<longrightarrow>
                 transformPropertyName h container False ctx2 = Inr (Identifier ?g, ctx2)"
    using transformPropertyName_later[OF assms(1)] by blast
  have rep: "\<forall>n. resolveRepeatedly h container (Suc n) ctx =
                 Inr (ComputedPropertyName i (AssignmentExpression (Identifier ?g) (visitExpression h e))
                      # replicate n (Identifier ?g), ?ctx1)"
    using first resolveRepeatedly_later[OF assms(1) reg] by simp
  show ?thesis
    using first reg later rep by (intro exI[of _ ?ctx1]) simp
qed

text \<open>
  The helper that turns a resolved name into the decorator argument returns the expression
  of a computed name and a copy of a string literal; given the generated identifier it
  falls through and yields \<^verbatim>\<open>undefined\<close>.
\<close>

lemma getExpressionForPropertyName_later:
  assumes "ce_name container = ComputedPropertyName i e"
      and "generatedNames ctx i = Some g"
  shows "getExpressionForPropertyName h container ctx = Inr (Undefined, ctx)"
  by (simp add: getExpressionForPropertyName_def transformPropertyName_later[OF assms])

text \<open>
  Claim C8. The name expression of a decorated static member with a computed name should
  be assigned to a hoisted local once, and every later resolution, the decorator-argument
  reference in particular, should use the generated identifier. The resolution does so,
  and the name expression occurs once in the output; the decorator argument does not
  hold the identifier. For \<^verbatim>\<open>@d class C { @dec static [key()]() {} }\<close> the first resolution
  gives \<^verbatim>\<open>[_a = key()]\<close> and hoists \<^verbatim>\<open>_a\<close>, a later resolution gives \<^verbatim>\<open>_a\<close>, and the helper
  that builds the decorator argument from it gives \<^verbatim>\<open>undefined\<close>: the lowered statement is
  \<^verbatim>\<open>Object.defineProperty(C, undefined, __decorate([...], C, undefined,
  Object.getOwnPropertyDescriptor(C, undefined)))\<close>.
\<close>

theorem decorator_argument_of_computed_name_at_input:
  "transformPropertyName plainHost computedStaticMethod False emptyContext =
     Inr (ComputedPropertyName 71
            (AssignmentExpression (Identifier ''_a'') (CallExpression (Identifier ''key'') [])),
          afterFirstResolution)
   \<and> transformPropertyName plainHost computedStaticMethod False afterFirstResolution =
       Inr (Identifier ''_a'', afterFirstResolution)
   \<and> getExpressionForPropertyName plainHost computedStaticMethod afterFirstResolution =
       Inr (Undefined, afterFirstResolution)
   \<and> transformClassDeclaration plainHost
         (sampleClass (Some [''d'']) None [computedStaticMethod]) emptyContext =
       Inr (None,
            afterFirstResolution
              \<lparr>statements :=
                 [VariableStatement (Identifier ''C'')
                    (ClassLike ClassExpression (- 1) None [] (Some (Identifier ''C_11'')) None
                       [ClassElement MethodDeclaration 70 True False None []
                          (ComputedPropertyName 71
                             (AssignmentExpression (Identifier ''_a'')
                                (CallExpression (Identifier ''key'') [])))
                          [] (Some []) None None None])
                    NodeFlags_Let,
                  ExpressionStatement
                    (CallExpression (objectMember ''defineProperty'')
                       [Identifier ''C'', Undefined,
                        CallExpression (Identifier ''__decorate'')
                          [ArrayLiteralExpression
                             [Identifier ''dec'',
                              CallExpression (Identifier ''__metadata'')
                                [StringLiteral ''design:paramtypes'']],
                           Identifier ''C'', Undefined,
                           CallExpression (objectMember ''getOwnPropertyDescriptor'')
                             [Identifier ''C'', Undefined]]]),
                  ExpressionStatement
                    (AssignmentExpression (Identifier ''C'')
                       (CallExpression (Identifier ''__decorate'')
                          [ArrayLiteralExpression
                             [Identifier ''d'',
                              CallExpression (Identifier ''__metadata'')
                                [StringLiteral ''design:paramtypes'']],
                           Identifier ''C'']))],
               nextName := 2\<rparr>)"
  by (simp add: sampleClass_def computedStaticMethod_def sampleMember_def afterFirstResolution_def
        transformClassDeclaration_def getClassExtendsHeritageClauseElement_def
        getFirstConstructorWithBody_def getInitializedProperties_def transformConstructor_def
        Let_def plainHost_def transformNodeWorker_def transformMethodDeclaration_def
        transformPropertyName_def getDeclarationNameOfMember_def nodeHasGeneratedName_def
        getGeneratedNameForNode_def hoistVariableDeclaration_def updateFunctionLike_def
        createUniqueIdentifier_def createClassExpression2_def
        emitDecoratorsOfClass_def emitDecoratorsOfMembers_def emitDecoratorsOfMember_def
        memberDecoratorsAndParameters_def memberDecoratorExpressions_def isAccessor_def
        isMethodDeclaration_def isPropertyDeclaration_def getExpressionForPropertyName_def
        emitDecoratorsOfParameters_def emitSerializedTypeMetadata_def metadataCall_def
        emitDecoratorsOfConstructor_def hasDecoratedParameters_def
        emitAssignmentStatement_def emitExpressionStatement_def emitStatement_def
        emptyContext_def sampleClassName_def numeral_2_eq_2)

section \<open>Property name resolution\<close>

text \<open>
  Claim C9. Property-name resolution succeeds for every declaration whose name is an
  identifier, a literal or a computed name, whatever the scope flag and the context, and
  what it returns is a property name (an identifier, a literal or a computed name); an
  identifier or a literal is returned as it is, with the context unchanged. Among the
  forms a declaration name can take it fails exactly for a binding pattern, and the failure
  is the hard \<^verbatim>\<open>Debug.fail\<close>. No caller catches it: the functions that resolve a name
  fail with the same error.
\<close>

theorem transformPropertyName_fails_on_patterns_only:
  "(isIdentifier (ce_name container) \<or> isLiteral (ce_name container)
      \<or> isComputedPropertyName (ce_name container)
      \<longrightarrow> (\<exists>name ctx'. transformPropertyName h container isPerInstance ctx = Inr (name, ctx')
                        \<and> isPropertyName name))
   \<and> (isIdentifier (ce_name container) \<or> isLiteral (ce_name container)
      \<longrightarrow> transformPropertyName h container isPerInstance ctx = Inr (ce_name container, ctx))
   \<and> (isDeclarationName (ce_name container) \<longrightarrow>
        ((\<exists>err. transformPropertyName h container isPerInstance ctx = Inl err)
           \<longleftrightarrow> isBindingPattern (ce_name container)))
   \<and> (isBindingPattern (ce_name container) \<longrightarrow>
        transformPropertyName h container isPerInstance ctx =
          Inl (DebugFailure ''Binding patterns cannot be used as property names.'')
        \<and> getExpressionForPropertyName h container ctx =
          Inl (DebugFailure ''Binding patterns cannot be used as property names.'')
        \<and> transformPropertyDeclaration h node container ctx =
          Inl (DebugFailure ''Binding patterns cannot be used as property names.''))"
  by (cases "ce_name container")
     (auto simp: transformPropertyName_def getDeclarationNameOfMember_def Let_def
        isDeclarationName_def getExpressionForPropertyName_def transformPropertyDeclaration_def
        split: prod.splits)

theorem transformPropertyName_fails_on_patterns_only_witness:
  "isBindingPattern (ce_name patternNamedMember)
   \<and> transformPropertyName plainHost patternNamedMember False emptyContext =
       Inl (DebugFailure ''Binding patterns cannot be used as property names.'')
   \<and> isIdentifier (ce_name plainMethod)
   \<and> (\<exists>name ctx'. transformPropertyName plainHost plainMethod False emptyContext = Inr (name, ctx')
                    \<and> isPropertyName name)
   \<and> transformPropertyName plainHost plainMethod False emptyContext =
       Inr (Identifier ''m'', emptyContext)"
  using transformPropertyName_fails_on_patterns_only
          [of patternNamedMember plainHost False emptyContext accessorClass]
        transformPropertyName_fails_on_patterns_only
          [of plainMethod plainHost False emptyContext accessorClass]
  by (simp add: patternNamedMember_def plainMethod_def sampleMember_def)

section \<open>The order of the decorator statements of a class\<close>

text \<open>
  Claim C10. For a class in which every member that can be decorated and is decorated, or
  has a decorated parameter, has a property name (a constructor, which has no name, is not
  such a member), decorator lowering succeeds and appends three groups to the innermost
  buffer, in this order: one statement
  per lowered instance member, in member declaration order; one statement per lowered
  static member, in member declaration order; the class-level statement, when there is
  one. A member is lowered when it is in the group, can be decorated, is decorated or has
  a decorated parameter, and is not the second accessor of a pair.
\<close>

theorem emitDecoratorsOfClass_group_order:
  assumes "\<forall>m \<in> set (c_members node).
             nodeCanBeDecorated h m \<and> nodeOrChildIsDecorated h m \<longrightarrow> isPropertyName (ce_name m)"
  shows "\<exists>ctx' instanceStatements staticStatements.
           emitDecoratorsOfClass h node ctx = Inr ctx'
           \<and> statements ctx' =
               statements ctx @ instanceStatements @ staticStatements @ specClassStatements h node
           \<and> list_all2 (isDecoratorStatementOf h node)
                (filter (memberIsLowered h node False) (c_members node)) instanceStatements
           \<and> list_all2 (isDecoratorStatementOf h node)
                (filter (memberIsLowered h node True) (c_members node)) staticStatements"
proof -
  obtain ctx1 a where
    1: "emitDecoratorsOfMembersLoop h node False (c_members node) ctx = Inr ctx1"
       "statements ctx1 = statements ctx @ a"
       "list_all2 (isDecoratorStatementOf h node)
          (filter (memberIsLowered h node False) (c_members node)) a"
    using emitDecoratorsOfMembersLoop_order[OF assms, of node False ctx] by blast
  obtain ctx2 b where
    2: "emitDecoratorsOfMembersLoop h node True (c_members node) ctx1 = Inr ctx2"
       "statements ctx2 = statements ctx1 @ b"
       "list_all2 (isDecoratorStatementOf h node)
          (filter (memberIsLowered h node True) (c_members node)) b"
    using emitDecoratorsOfMembersLoop_order[OF assms, of node True ctx1] by blast
  have 3: "statements (emitDecoratorsOfConstructor h node ctx2) =
             statements ctx2 @ specClassStatements h node"
    by (simp add: emitDecoratorsOfConstructor_statements)
  show ?thesis
    using 1 2 3
    by (intro exI[of _ "emitDecoratorsOfConstructor h node ctx2"] exI[of _ a] exI[of _ b])
       (simp add: emitDecoratorsOfClass_def emitDecoratorsOfMembers_def)
qed

theorem emitDecoratorsOfClass_group_order_witness:
  "list_all (\<lambda>m. isPropertyName (ce_name m))
     (filter (\<lambda>m. nodeCanBeDecorated plainHost m \<and> nodeOrChildIsDecorated plainHost m)
        (c_members groupedClass))
   \<and> map ce_kind (c_members groupedClass) =
       [Constructor, MethodDeclaration, MethodDeclaration, MethodDeclaration]
   \<and> (\<exists>ctx' instanceStatements staticStatements.
         emitDecoratorsOfClass plainHost groupedClass emptyContext = Inr ctx'
         \<and> statements ctx' =
             instanceStatements @ staticStatements @
             [ExpressionStatement
                (AssignmentExpression (Identifier ''C'')
                   (CallExpression (Identifier ''__decorate'')
                      [ArrayLiteralExpression
                         [Identifier ''dec'',
                          CallExpression (Identifier ''__param'') [NumericLiteral 0, Identifier ''p''],
                          CallExpression (Identifier ''__metadata'')
                            [StringLiteral ''design:paramtypes'']],
                       Identifier ''C'']))]
         \<and> list_all2 (isDecoratorStatementOf plainHost groupedClass)
              [methodM1, methodM2] instanceStatements
         \<and> list_all2 (isDecoratorStatementOf plainHost groupedClass)
              [methodS1] staticStatements)"
proof -
  have members: "c_members groupedClass = [groupedCtor, methodM1, methodS1, methodM2]"
    by (simp add: groupedClass_def sampleClass_def)
  have kinds: "map ce_kind (c_members groupedClass) =
                 [Constructor, MethodDeclaration, MethodDeclaration, MethodDeclaration]"
    by (simp add: members groupedCtor_def methodM1_def methodM2_def methodS1_def sampleMember_def)
  have names: "\<forall>m \<in> set (c_members groupedClass).
                 nodeCanBeDecorated plainHost m \<and> nodeOrChildIsDecorated plainHost m
                 \<longrightarrow> isPropertyName (ce_name m)"
    by (simp add: members groupedCtor_def methodM1_def methodM2_def methodS1_def
          sampleMember_def plainHost_def)
  have named: "list_all (\<lambda>m. isPropertyName (ce_name m))
     (filter (\<lambda>m. nodeCanBeDecorated plainHost m \<and> nodeOrChildIsDecorated plainHost m)
        (c_members groupedClass))"
    using names by (simp add: list_all_iff)
  have inst: "filter (memberIsLowered plainHost groupedClass False) (c_members groupedClass) =
                [methodM1, methodM2]"
    by (simp add: groupedClass_def sampleClass_def groupedCtor_def methodM1_def methodM2_def
          methodS1_def sampleMember_def memberIsLowered_def memberDecoratorsAndParameters_def
          plainHost_def isAccessor_def)
  have stat: "filter (memberIsLowered plainHost groupedClass True) (c_members groupedClass) =
                [methodS1]"
    by (simp add: groupedClass_def sampleClass_def groupedCtor_def methodM1_def methodM2_def
          methodS1_def sampleMember_def memberIsLowered_def memberDecoratorsAndParameters_def
          plainHost_def isAccessor_def)
  have cls: "specClassStatements plainHost groupedClass =
             [ExpressionStatement
                (AssignmentExpression (Identifier ''C'')
                   (CallExpression (Identifier ''__decorate'')
                      [ArrayLiteralExpression
                         [Identifier ''dec'',
                          CallExpression (Identifier ''__param'') [NumericLiteral 0, Identifier ''p''],
                          CallExpression (Identifier ''__metadata'')
                            [StringLiteral ''design:paramtypes'']],
                       Identifier ''C'']))]"
    by (simp add: specClassStatements_def groupedClass_def sampleClass_def groupedCtor_def
          methodM1_def methodM2_def methodS1_def sampleMember_def constructorParameters_def
          getFirstConstructorWithBody_def specDecoratorList_def specParameterDecoratorList_def
          parameterWrappers_def specMetadataCalls_def metadataCall_def decoratorsOrNone_def
          decoratedParameter_def plainHost_def sampleClassName_def)
  from emitDecoratorsOfClass_group_order [OF names, of emptyContext]
  show ?thesis
    using named kinds by (simp add: inst stat cls emptyContext_def)
qed

end
